theory Spec2Isabelle
  imports Complex_Main
begin

section \<open>Shared vocabulary\<close>

text \<open>
  The module \<^verbatim>\<open>mmctools/coupling/sowfa.py\<close> writes SOWFA input files from pandas
  dataframes (class \<^verbatim>\<open>InternalCoupling\<close>) and xarray datasets (class
  \<^verbatim>\<open>BoundaryCoupling\<close>). Every \<^verbatim>\<open>raise\<close> and failed \<^verbatim>\<open>assert\<close> is a value of
  \<open>error\<close>; a function that can fail returns \<open>error + 'a\<close>.

  Floating point numbers are modelled as \<open>real\<close>; a dataframe cell is a \<open>real option\<close>,
  \<open>None\<close> standing for NaN. The values of the fields are only moved from the input to
  the files, never computed with, except in two places: the times \<^verbatim>\<open>t_index\<close>, which are
  differences of timestamps and of which only the sign is ever used, and the scaled values
  of \<^verbatim>\<open>write_BCs\<close>, which are kept as symbolic products because the float product is
  not the product of reals (rounding, the sign of zero, non-finite results).
\<close>

datatype error = AssertionError | KeyError | IndexError | ValueError | TypeError | AttributeError

type_synonym cell = "real option"

subsection \<open>Formatted text\<close>

text \<open>
  The digits that C's \<^verbatim>\<open>%g\<close> prints for a float are not modelled. A formatted text is a
  list of pieces: literal characters, and numbers tagged with the precision of the
  conversion that prints them (\<^verbatim>\<open>%g\<close> is precision 6, \<^verbatim>\<open>%.12g\<close> is precision 12).
  The memory layout of a float is not modelled either: in a binary file, \<open>Raw v\<close> stands
  for the bytes that \<^verbatim>\<open>ndarray.tobytes\<close> emits for the element \<open>v\<close> (as many bytes as
  the element type is wide), and \<open>Lit\<close> for bytes written as such.
\<close>

datatype 'v piece = Lit string | Num nat 'v | Raw 'v

fun lit :: "char \<Rightarrow> 'v piece list \<Rightarrow> 'v piece list" where
  "lit c (Lit s # ps) = Lit (c # s) # ps"
| "lit c ps = Lit [c] # ps"

text \<open>
  Python's \<^verbatim>\<open>format % tuple(row)\<close>, for the two conversions the module uses. Too few
  values, or values left over, raise TypeError; any other conversion is ValueError.
\<close>

fun pyfmt :: "string \<Rightarrow> 'v list \<Rightarrow> error + 'v piece list" where
  "pyfmt [] vs = (if vs = [] then Inr [] else Inl TypeError)"
| "pyfmt (c # cs) vs =
     (if c = CHR ''%'' then
        (if take 1 cs = ''g'' then
           (case vs of [] \<Rightarrow> Inl TypeError
            | v # vs' \<Rightarrow> (case pyfmt (drop 1 cs) vs' of Inl e \<Rightarrow> Inl e
                          | Inr ps \<Rightarrow> Inr (Num 6 v # ps)))
         else if take 4 cs = ''.12g'' then
           (case vs of [] \<Rightarrow> Inl TypeError
            | v # vs' \<Rightarrow> (case pyfmt (drop 4 cs) vs' of Inl e \<Rightarrow> Inl e
                          | Inr ps \<Rightarrow> Inr (Num 12 v # ps)))
         else Inl ValueError)
      else (case pyfmt cs vs of Inl e \<Rightarrow> Inl e | Inr ps \<Rightarrow> Inr (lit c ps)))"

text \<open>
  \<^verbatim>\<open>str.join\<close> with the delimiter \<^verbatim>\<open>' '\<close>, and \<^verbatim>\<open>str.count('%')\<close>.
\<close>

fun join_sp :: "string list \<Rightarrow> string" where
  "join_sp [] = []"
| "join_sp [s] = s"
| "join_sp (s # ss) = s @ '' '' @ join_sp ss"

definition count_pct :: "string \<Rightarrow> nat" where
  "count_pct s = length (filter (\<lambda>c. c = CHR ''%'') s)"

text \<open>
  \<^verbatim>\<open>numpy.savetxt(f, X, fmt=..., header=..., footer=..., comments='')\<close> on an array of
  \<open>ncol\<close> columns. A list of formats must have one entry per column and is joined with
  blanks; a single format with one \<^verbatim>\<open>%\<close> is repeated for each column, one with \<open>ncol\<close>
  conversions is the format of the whole row. A non-empty header and footer are written
  verbatim, each followed by a newline; every row is followed by a newline.
\<close>

datatype fmtspec = FmtStr string | FmtList "string list"

definition row_format :: "fmtspec \<Rightarrow> nat \<Rightarrow> error + string" where
  "row_format fmt ncol =
     (case fmt of
        FmtList fs \<Rightarrow> (if length fs = ncol then Inr (join_sp fs) else Inl AttributeError)
      | FmtStr s \<Rightarrow>
          (if count_pct s = 1 then Inr (join_sp (replicate ncol s))
           else if count_pct s = ncol then Inr s
           else Inl ValueError))"

fun fmt_rows :: "string \<Rightarrow> 'v list list \<Rightarrow> error + 'v piece list" where
  "fmt_rows f [] = Inr []"
| "fmt_rows f (r # rs) =
     (case pyfmt f r of Inl e \<Rightarrow> Inl e
      | Inr ps \<Rightarrow> (case fmt_rows f rs of Inl e \<Rightarrow> Inl e
                    | Inr qs \<Rightarrow> Inr (ps @ Lit [CHR 0x0A] # qs)))"

definition verbatim_line :: "string \<Rightarrow> 'v piece list" where
  "verbatim_line s = (if s = [] then [] else [Lit (s @ [CHR 0x0A])])"

definition savetxt :: "'v list list \<Rightarrow> nat \<Rightarrow> fmtspec \<Rightarrow> string \<Rightarrow> string \<Rightarrow> error + 'v piece list" where
  "savetxt X ncol fmt header footer =
     (case row_format fmt ncol of Inl e \<Rightarrow> Inl e
      | Inr f \<Rightarrow> (case fmt_rows f X of Inl e \<Rightarrow> Inl e
                   | Inr body \<Rightarrow> Inr (verbatim_line header @ body @ verbatim_line footer)))"

section \<open>InternalCoupling\<close>

subsection \<open>The stored dataframe\<close>

text \<open>
  A dataframe is its index labels, its named columns, each as long as the index, and the
  kind of its index: timestamps (a \<^verbatim>\<open>DatetimeIndex\<close>), durations (a
  \<^verbatim>\<open>TimedeltaIndex\<close>) or plain numbers. The labels are kept as numbers of seconds
  whatever the kind. The frame handed to the constructor either has that plain index or a
  two-level MultiIndex, whose level names and second-level values are kept beside it.
\<close>

datatype index_kind = DatetimeIndex | TimedeltaIndex | NumericIndex

record dataframe =
  df_index_kind :: index_kind
  df_index :: "real list"
  df_columns :: "(string \<times> cell list) list"

datatype frame_in = Plain dataframe | Multi string string "cell list" dataframe

definition columns :: "dataframe \<Rightarrow> string list" where
  "columns df = map fst (df_columns df)"

definition col :: "dataframe \<Rightarrow> string \<Rightarrow> cell list option" where
  "col df name = map_of (df_columns df) name"

text \<open>
  \<^verbatim>\<open>df.loc[:,field] = 0.0\<close> for a name that is not a column appends a column of zeros.
\<close>

definition add_zero_column :: "dataframe \<Rightarrow> string \<Rightarrow> dataframe" where
  "add_zero_column df name =
     df\<lparr>df_columns := df_columns df @ [(name, replicate (length (df_index df)) (Some 0))]\<rparr>"

text \<open>Row selection by a boolean mask, as \<^verbatim>\<open>df.loc[mask]\<close> does.\<close>

definition keep_rows :: "bool list \<Rightarrow> 'a list \<Rightarrow> 'a list" where
  "keep_rows msk xs = map snd (filter fst (zip msk xs))"

definition select_rows :: "bool list \<Rightarrow> dataframe \<Rightarrow> dataframe" where
  "select_rows msk df =
     \<lparr>df_index_kind = df_index_kind df,
      df_index = keep_rows msk (df_index df),
      df_columns = map (\<lambda>(n, vs). (n, keep_rows msk vs)) (df_columns df)\<rparr>"

definition set_column :: "dataframe \<Rightarrow> string \<Rightarrow> cell list \<Rightarrow> dataframe" where
  \<comment> \<open>\<^verbatim>\<open>df[name] = values\<close>: an existing column is overwritten in place, a new one appended\<close>
  "set_column df name vs =
     (if name \<in> set (columns df)
      then df\<lparr>df_columns := map (\<lambda>(n, ws). if n = name then (n, vs) else (n, ws)) (df_columns df)\<rparr>
      else df\<lparr>df_columns := df_columns df @ [(name, vs)]\<rparr>)"

definition unique :: "'a list \<Rightarrow> 'a list" where
  \<comment> \<open>\<^verbatim>\<open>Series.unique()\<close>: the distinct values in order of first appearance\<close>
  "unique xs = rev (remdups (rev xs))"

definition has_nan :: "cell list \<Rightarrow> bool" where
  "has_nan vs = list_ex (\<lambda>v. v = None) vs"

subsection \<open>The writer and its constructor\<close>

text \<open>
  The fields of the writer, and the type of the column \<^verbatim>\<open>t_index\<close> that the constructor
  sets: floats (seconds), or \<^verbatim>\<open>datetime64\<close> when it copies a \<^verbatim>\<open>DatetimeIndex\<close> into
  the column. \<open>ic_t_index_datetime\<close> tells the second case.
\<close>

record internal_coupling =
  ic_dpath :: string
  ic_df :: dataframe
  ic_datefrom :: real
  ic_t_index_datetime :: bool

record 'v outfile =
  f_dir :: string
  f_name :: string
  f_text :: "'v piece list"

text \<open>
  \<^verbatim>\<open>InternalCoupling.__init__(dpath, df, dateref, datefrom, dateto)\<close>. Dates are times in
  seconds, as the index labels are. The plain index is the one the class asks for
  ("index should be called datetime"); a MultiIndex is checked for its level names and its
  second level becomes the column \<^verbatim>\<open>height\<close> (\<^verbatim>\<open>reset_index(level=1)\<close>, which refuses
  a name that is already a column). The rows between the two dates are kept, the frame must
  not be empty, and the column \<^verbatim>\<open>t_index\<close> is set. With a \<open>dateref\<close> it is the seconds
  since then (through \<^verbatim>\<open>reset_index\<close>, which refuses an existing column \<^verbatim>\<open>datetime\<close>;
  subtracting a timestamp from anything but timestamps is a TypeError). Without one it is
  \<^verbatim>\<open>total_seconds()\<close> of a \<^verbatim>\<open>TimedeltaIndex\<close>, and otherwise the index itself, which
  leaves timestamps in the column when the index is a \<^verbatim>\<open>DatetimeIndex\<close>. Creating the
  directory is not modelled.
\<close>

definition reset_level1 :: "frame_in \<Rightarrow> error + dataframe" where
  "reset_level1 fin =
     (case fin of
        Plain df \<Rightarrow> Inr df
      | Multi n0 n1 lv1 df \<Rightarrow>
          (if n0 \<noteq> ''datetime'' then Inl AssertionError
           else if n1 \<noteq> ''height'' then Inl AssertionError
           else if n1 \<in> set (columns df) then Inl ValueError
           else Inr (df\<lparr>df_columns := (n1, lv1) # df_columns df\<rparr>)))"

definition ic_init :: "string \<Rightarrow> frame_in \<Rightarrow> real option \<Rightarrow> real option \<Rightarrow> real option
                         \<Rightarrow> error + internal_coupling" where
  "ic_init dpath fin dateref datefrom dateto =
     (case reset_level1 fin of Inl e \<Rightarrow> Inl e
      | Inr df \<Rightarrow>
          (if (datefrom = None \<or> dateto = None) \<and> df_index df = [] then Inl IndexError
           else
             let dfrom = (case datefrom of None \<Rightarrow> hd (df_index df) | Some d \<Rightarrow> d);
                 dto = (case dateto of None \<Rightarrow> last (df_index df) | Some d \<Rightarrow> d);
                 sel = select_rows (map (\<lambda>t. dfrom \<le> t \<and> t \<le> dto) (df_index df)) df
             in if df_index sel = [] then Inl AssertionError
                else (case dateref of
                        Some r \<Rightarrow>
                          (if ''datetime'' \<in> set (columns sel) then Inl ValueError
                           else if df_index_kind sel \<noteq> DatetimeIndex then Inl TypeError
                           else Inr \<lparr>ic_dpath = dpath,
                                     ic_df = set_column sel ''t_index''
                                               (map (\<lambda>t. Some (t - r)) (df_index sel)),
                                     ic_datefrom = dfrom,
                                     ic_t_index_datetime = False\<rparr>)
                      | None \<Rightarrow>
                          Inr \<lparr>ic_dpath = dpath,
                               ic_df = set_column sel ''t_index'' (map Some (df_index sel)),
                               ic_datefrom = dfrom,
                               ic_t_index_datetime = (df_index_kind df = DatetimeIndex)\<rparr>)))"

subsection \<open>write_BCs\<close>

text \<open>
  \<^verbatim>\<open>write_BCs(fname, fieldname, fact)\<close>. A row of the file is a time and a scaled value.
  \<open>Scaled fct v\<close> stands for the float that \<^verbatim>\<open>fact * v\<close> computes; nothing is assumed of
  it (for \<^verbatim>\<open>fact = -1\<close> and \<^verbatim>\<open>v = 0.0\<close> it is the float \<^verbatim>\<open>-0.0\<close>, which prints as
  \<^verbatim>\<open>-0\<close>). When \<^verbatim>\<open>t_index\<close> holds timestamps, \<^verbatim>\<open>np.concatenate\<close> finds no common type
  for the time column and the float values and raises TypeError (as the product does
  before it when the field is \<^verbatim>\<open>t_index\<close> itself); both come after the two assertions.
\<close>

datatype surface_value = Time cell | Scaled real cell

definition write_BCs :: "internal_coupling \<Rightarrow> string \<Rightarrow> string \<Rightarrow> real
                           \<Rightarrow> error + surface_value outfile" where
  "write_BCs self fname fieldname fct =
     (case col (ic_df self) ''t_index'' of None \<Rightarrow> Inl AttributeError
      | Some ts \<Rightarrow>
          (case col (ic_df self) fieldname of None \<Rightarrow> Inl AssertionError
           | Some fv \<Rightarrow>
               if has_nan fv then Inl AssertionError
               else if ic_t_index_datetime self then Inl TypeError
               else
                 let fieldvalues = map (Scaled fct) fv
                 in (case savetxt (map2 (\<lambda>t v. [Time t, v]) ts fieldvalues) 2
                            (FmtList [''    (%g'', ''%.12g)'']) [] [] of
                       Inl e \<Rightarrow> Inl e
                     | Inr txt \<Rightarrow> Inr \<lparr>f_dir = ic_dpath self, f_name = fname, f_text = txt\<rparr>)))"

subsection \<open>write_ICs\<close>

text \<open>
  \<^verbatim>\<open>self.df.loc[self.datefrom]\<close> selects by index label. pandas raises KeyError when no
  row carries the label, returns the single matching row as a \<^verbatim>\<open>Series\<close> when exactly one
  does, and a \<^verbatim>\<open>DataFrame\<close> of the matching rows when several do.
\<close>

datatype loc_result = Series "(string \<times> cell) list" | DataFrame dataframe

definition loc_label :: "dataframe \<Rightarrow> real \<Rightarrow> error + loc_result" where
  "loc_label df label =
     (let msk = map (\<lambda>t. t = label) (df_index df);
          hit = select_rows msk df
      in if length (df_index hit) = 0 then Inl KeyError
         else if length (df_index hit) = 1
         then Inr (Series (map (\<lambda>(n, vs). (n, hd vs)) (df_columns hit)))
         else Inr (DataFrame hit))"

text \<open>
  \<^verbatim>\<open>write_ICs(fname, xmom, ymom, temp)\<close> works on a copy of the selection, so the stored
  frame is never changed and the function returns only the file. A \<^verbatim>\<open>Series\<close> has no
  attribute \<^verbatim>\<open>columns\<close>: the first test of the zero-filling loop raises AttributeError.
\<close>

definition zero_fill :: "dataframe \<Rightarrow> string list \<Rightarrow> dataframe" where
  "zero_fill df fieldNames =
     foldl (\<lambda>d field. if field \<notin> set (columns d) then add_zero_column d field else d) df fieldNames"

definition the_col :: "dataframe \<Rightarrow> string \<Rightarrow> cell list" where
  "the_col df name = (case col df name of None \<Rightarrow> [] | Some vs \<Rightarrow> vs)"

definition ICs_file :: "internal_coupling \<Rightarrow> string \<Rightarrow> string \<Rightarrow> string \<Rightarrow> string \<Rightarrow> error + cell outfile" where
  "ICs_file self fname xmom ymom temp =
     (case loc_label (ic_df self) (ic_datefrom self) of
        Inl e \<Rightarrow> Inl e
      | Inr (Series row) \<Rightarrow> Inl AttributeError
      | Inr (DataFrame df0) \<Rightarrow>
          let fieldNames = [xmom, ymom, temp];
              df = zero_fill df0 fieldNames
          in (case col df ''height'' of None \<Rightarrow> Inl AttributeError
              | Some zs \<Rightarrow>
                  if list_ex (\<lambda>field. has_nan (the_col df field)) fieldNames then Inl AssertionError
                  else (case savetxt (map (\<lambda>(z, x, y, t). [z, x, y, t])
                                        (zip zs (zip (the_col df xmom)
                                                  (zip (the_col df ymom) (the_col df temp))))) 4
                               (FmtList ([''    (%g''] @ replicate 2 ''%.12g'' @ [''%.12g)''])) [] [] of
                          Inl e \<Rightarrow> Inl e
                        | Inr txt \<Rightarrow> Inr \<lparr>f_dir = ic_dpath self, f_name = fname, f_text = txt\<rparr>)))"

text \<open>
  The method assigns only to its local copy \<^verbatim>\<open>df\<close>; the writer it leaves behind is the
  one it was called on.
\<close>

definition write_ICs :: "internal_coupling \<Rightarrow> string \<Rightarrow> string \<Rightarrow> string \<Rightarrow> string
                           \<Rightarrow> internal_coupling \<times> (error + cell outfile)" where
  "write_ICs self fname xmom ymom temp = (self, ICs_file self fname xmom ymom temp)"

subsection \<open>write_timeheight\<close>

text \<open>
  \<^verbatim>\<open>have_xyz_mom = [(comp is not None) for comp in [xmom,ymom,zmom]]\<close>; if any is set,
  all must be, and the result is the flag \<^verbatim>\<open>write_mom\<close>.
\<close>

definition check_mom :: "string option \<Rightarrow> string option \<Rightarrow> string option \<Rightarrow> error + bool" where
  "check_mom xmom ymom zmom =
     (let have_xyz_mom = map (\<lambda>comp. comp \<noteq> None) [xmom, ymom, zmom]
      in if list_ex id have_xyz_mom
         then (if list_all id have_xyz_mom then Inr True else Inl AssertionError)
         else Inr False)"

text \<open>
  The zero-filling loop of \<^verbatim>\<open>write_timeheight\<close> assigns into \<^verbatim>\<open>self.df\<close> itself.
\<close>

definition fill_requested :: "dataframe \<Rightarrow> string option list \<Rightarrow> dataframe" where
  "fill_requested df fieldNames =
     foldl (\<lambda>d field. case field of None \<Rightarrow> d
                       | Some f \<Rightarrow> if f \<notin> set (columns d) then add_zero_column d f else d)
           df fieldNames"

text \<open>
  The blocks of the output file. \<^verbatim>\<open>np.concatenate\<close> of the time column and a pivoted
  table needs as many table rows as times (ValueError otherwise) and a common type
  (TypeError when the times are timestamps), and \<^verbatim>\<open>np.savetxt\<close> needs one format per
  column (AttributeError otherwise).
\<close>

definition heights_block :: "cell list \<Rightarrow> error + cell piece list" where
  "heights_block zs = savetxt (map (\<lambda>z. [z]) zs) 1 (FmtStr ''    %g'') ''('' ('');'' @ [CHR 0x0A])"

definition table_block :: "bool \<Rightarrow> cell list \<Rightarrow> nat \<Rightarrow> cell list list \<Rightarrow> error + cell piece list" where
  "table_block ts_datetime ts nz tab =
     (if length tab \<noteq> length ts then Inl ValueError
      else if ts_datetime then Inl TypeError
      else if list_ex (\<lambda>r. length r \<noteq> nz) tab then Inl AttributeError
      else savetxt (map2 (#) ts tab) (1 + nz)
             (FmtList ([''    (%g''] @ replicate (nz - 1) ''%.12g'' @ [''%.12g)'']))
             ''('' ('');'' @ [CHR 0x0A]))"

fun blocks :: "(error + 'v piece list) list \<Rightarrow> error + 'v piece list" where
  "blocks [] = Inr []"
| "blocks (b # bs) =
     (case b of Inl e \<Rightarrow> Inl e
      | Inr ps \<Rightarrow> (case blocks bs of Inl e \<Rightarrow> Inl e | Inr qs \<Rightarrow> Inr (ps @ qs)))"

definition line :: "string \<Rightarrow> error + 'v piece list" where
  "line s = Inr [Lit (s @ [CHR 0x0A])]"

text \<open>
  \<^verbatim>\<open>write_timeheight(fname, xmom, ymom, zmom, temp)\<close>. The function changes \<^verbatim>\<open>self.df\<close>
  and may raise afterwards, so the model returns the writer as the call leaves it together
  with the file or the error. \<^verbatim>\<open>DataFrame.pivot\<close> is pandas' own reshaping; it is the
  parameter \<open>pivot\<close>, from the frame and the requested names to the (time by height) table
  of each field, and every theorem below holds for whatever it computes. It returns a new
  frame and does not touch \<^verbatim>\<open>self.df\<close>. A file on which a write raises is modelled by
  the error alone. \<open>timeheight_body\<close> is everything after the completeness check, and
  \<open>timeheight_emit\<close> everything after the zero-filling loop, run on the writer as that
  loop left it.
\<close>

definition timeheight_emit ::
  "(dataframe \<Rightarrow> string list \<Rightarrow> error + (string \<Rightarrow> cell list list))
   \<Rightarrow> internal_coupling \<Rightarrow> string \<Rightarrow> bool \<Rightarrow> cell list \<Rightarrow> cell list
   \<Rightarrow> string option \<Rightarrow> string option \<Rightarrow> string option \<Rightarrow> string option
   \<Rightarrow> error + cell outfile" where
  "timeheight_emit pivot self fname write_mom zs ts xmom ymom zmom temp =
     (let nz = length zs;
          fieldNames = map the (filter (\<lambda>name. name \<noteq> None) [xmom, ymom, zmom, temp])
      in (case pivot (ic_df self) fieldNames of
            Inl e \<Rightarrow> Inl e
          | Inr df_pivot \<Rightarrow>
              if list_ex (\<lambda>field. list_ex has_nan (df_pivot field)) fieldNames
              then Inl AssertionError
              else
                (case blocks
                   ((if write_mom then
                       [line ''sourceHeightsMomentum'', heights_block zs,
                        line ''sourceTableMomentumX'',
                        table_block (ic_t_index_datetime self) ts nz (df_pivot (the xmom)),
                        line ''sourceTableMomentumY'',
                        table_block (ic_t_index_datetime self) ts nz (df_pivot (the ymom)),
                        line ''sourceTableMomentumZ'',
                        table_block (ic_t_index_datetime self) ts nz (df_pivot (the zmom))]
                     else []) @
                    (if temp \<noteq> None \<and> temp \<noteq> Some [] then
                       [line ''sourceHeightsTemperature'', heights_block zs,
                        line ''sourceTableTemperature'',
                        table_block (ic_t_index_datetime self) ts nz (df_pivot (the temp))]
                     else [])) of
                   Inl e \<Rightarrow> Inl e
                 | Inr txt \<Rightarrow> Inr \<lparr>f_dir = ic_dpath self, f_name = fname, f_text = txt\<rparr>)))"

definition timeheight_body ::
  "(dataframe \<Rightarrow> string list \<Rightarrow> error + (string \<Rightarrow> cell list list))
   \<Rightarrow> internal_coupling \<Rightarrow> string \<Rightarrow> bool
   \<Rightarrow> string option \<Rightarrow> string option \<Rightarrow> string option \<Rightarrow> string option
   \<Rightarrow> internal_coupling \<times> (error + cell outfile)" where
  "timeheight_body pivot self fname write_mom xmom ymom zmom temp =
     (case col (ic_df self) ''height'' of None \<Rightarrow> (self, Inl AttributeError)
      | Some hs \<Rightarrow>
     (case col (ic_df self) ''t_index'' of None \<Rightarrow> (self, Inl AttributeError)
      | Some tis \<Rightarrow>
          let zs = unique hs; ts = unique tis;
              self' = self\<lparr>ic_df := fill_requested (ic_df self) [xmom, ymom, zmom, temp]\<rparr>
          in (self', timeheight_emit pivot self' fname write_mom zs ts xmom ymom zmom temp)))"

definition write_timeheight ::
  "(dataframe \<Rightarrow> string list \<Rightarrow> error + (string \<Rightarrow> cell list list))
   \<Rightarrow> internal_coupling \<Rightarrow> string
   \<Rightarrow> string option \<Rightarrow> string option \<Rightarrow> string option \<Rightarrow> string option
   \<Rightarrow> internal_coupling \<times> (error + cell outfile)" where
  "write_timeheight pivot self fname xmom ymom zmom temp =
     (case check_mom xmom ymom zmom of
        Inl e \<Rightarrow> (self, Inl e)
      | Inr write_mom \<Rightarrow> timeheight_body pivot self fname write_mom xmom ymom zmom temp)"

section \<open>BoundaryCoupling\<close>

subsection \<open>Labelled arrays\<close>

text \<open>
  An \<^verbatim>\<open>xarray.DataArray\<close> is its dimension names, its shape and its values by
  multi-index. \<^verbatim>\<open>ravel(order='C')\<close> lists the values with the multi-indices in
  lexicographic order: the first axis is the outermost loop, the last the innermost.
  \<open>from_flat\<close> reads a row-major buffer as an array.
\<close>

record darray =
  da_dims :: "string list"
  da_shape :: "nat list"
  da_val :: "nat list \<Rightarrow> real"

fun indices :: "nat list \<Rightarrow> nat list list" where
  "indices [] = [[]]"
| "indices (n # ns) = concat (map (\<lambda>i. map ((#) i) (indices ns)) [0..<n])"

definition ravel :: "darray \<Rightarrow> real list" where
  "ravel a = map (da_val a) (indices (da_shape a))"

definition offset :: "nat list \<Rightarrow> nat list \<Rightarrow> nat" where
  "offset shape idx = foldl (\<lambda>acc (n, i). acc * n + i) 0 (zip shape idx)"

definition from_flat :: "string list \<Rightarrow> nat list \<Rightarrow> real list \<Rightarrow> darray" where
  "from_flat ds shape buf = \<lparr>da_dims = ds, da_shape = shape, da_val = (\<lambda>idx. buf ! offset shape idx)\<rparr>"

fun index_of :: "'a list \<Rightarrow> 'a \<Rightarrow> nat" where
  "index_of [] x = 0"
| "index_of (y # ys) x = (if x = y then 0 else Suc (index_of ys x))"

definition size_of :: "darray \<Rightarrow> string \<Rightarrow> nat" where
  "size_of a d = da_shape a ! index_of (da_dims a) d"

text \<open>
  \<^verbatim>\<open>a.expand_dims({dim: coord})\<close> puts the new axis first and repeats the array along it.
  \<^verbatim>\<open>swap_dims\<close> renames an axis and raises when the array does not have it.
  \<^verbatim>\<open>transpose(*order)\<close> needs a permutation of the array's axes. Iterating an array
  yields its slices along the first axis.
\<close>

definition expand_dims :: "string \<Rightarrow> nat \<Rightarrow> darray \<Rightarrow> darray" where
  "expand_dims d n a =
     \<lparr>da_dims = d # da_dims a, da_shape = n # da_shape a, da_val = (\<lambda>idx. da_val a (tl idx))\<rparr>"

definition swap_dims :: "string \<Rightarrow> string \<Rightarrow> darray \<Rightarrow> error + darray" where
  "swap_dims old new a =
     (if old \<notin> set (da_dims a) \<or> new \<in> set (da_dims a) then Inl ValueError
      else Inr (a\<lparr>da_dims := map (\<lambda>d. if d = old then new else d) (da_dims a)\<rparr>))"

definition transpose_da :: "string list \<Rightarrow> darray \<Rightarrow> error + darray" where
  "transpose_da order a =
     (if distinct order \<and> set order = set (da_dims a) \<and> length order = length (da_dims a)
      then Inr \<lparr>da_dims = order,
                da_shape = map (size_of a) order,
                da_val = (\<lambda>idx. da_val a (map (\<lambda>d. idx ! index_of order d) (da_dims a)))\<rparr>
      else Inl ValueError)"

definition slice_at :: "darray \<Rightarrow> nat \<Rightarrow> darray" where
  "slice_at a t =
     \<lparr>da_dims = tl (da_dims a), da_shape = tl (da_shape a), da_val = (\<lambda>idx. da_val a (t # idx))\<rparr>"

subsection \<open>Datasets\<close>

text \<open>
  An \<^verbatim>\<open>xarray.Dataset\<close>: its dimensions with their sizes, its coordinates and its data
  variables. \<^verbatim>\<open>ds.variables\<close> holds both kinds, and \<^verbatim>\<open>ds[name]\<close> finds either. For a
  dimension that has no coordinate variable, \<^verbatim>\<open>ds.coords[name]\<close> and \<^verbatim>\<open>ds[name]\<close> hand
  back the default labels 0, 1, ... of the dimension, which \<^verbatim>\<open>ds.variables\<close> does not
  list.
\<close>

record dataset =
  ds_dims :: "(string \<times> nat) list"
  ds_coords :: "(string \<times> darray) list"
  ds_data_vars :: "(string \<times> darray) list"

definition dims :: "dataset \<Rightarrow> string list" where
  "dims ds = map fst (ds_dims ds)"

definition coords :: "dataset \<Rightarrow> string \<Rightarrow> darray option" where
  "coords ds name =
     (case map_of (ds_coords ds) name of Some a \<Rightarrow> Some a
      | None \<Rightarrow>
          (case map_of (ds_dims ds) name of None \<Rightarrow> None
           | Some n \<Rightarrow> Some (from_flat [name] [n] (map real [0..<n]))))"

definition variables :: "dataset \<Rightarrow> string list" where
  "variables ds = map fst (ds_coords ds) @ map fst (ds_data_vars ds)"

definition getitem :: "dataset \<Rightarrow> string \<Rightarrow> darray option" where
  "getitem ds name =
     (case map_of (ds_data_vars ds) name of Some a \<Rightarrow> Some a | None \<Rightarrow> coords ds name)"

subsection \<open>Construction\<close>

text \<open>
  \<^verbatim>\<open>_check_xarray_dataset\<close>. The first loop asserts that each dimension is expected and
  that its coordinate (KeyError when there is none) has that dimension alone; the second
  removes the dimensions of the data from a copy of the expected ones, and exactly one must
  be left. The \<^verbatim>\<open>print\<close> that follows formats the value of that coordinate with
  \<^verbatim>\<open>{:g}\<close>, which raises unless the coordinate exists and is a scalar. The function
  returns the name of the constant dimension.
\<close>

fun check_coords :: "dataset \<Rightarrow> string list \<Rightarrow> string list \<Rightarrow> error + unit" where
  "check_coords ds expected_dims [] = Inr ()"
| "check_coords ds expected_dims (dm # rest) =
     (if dm \<notin> set expected_dims then Inl AssertionError
      else (case coords ds dm of None \<Rightarrow> Inl KeyError
            | Some coord \<Rightarrow>
                (case da_dims coord of [] \<Rightarrow> Inl IndexError
                 | d0 # _ \<Rightarrow>
                     if d0 = dm \<and> length (da_dims coord) = 1
                     then check_coords ds expected_dims rest
                     else Inl AssertionError)))"

fun remove_dims :: "string list \<Rightarrow> string list \<Rightarrow> error + string list" where
  "remove_dims ds [] = Inr ds"
| "remove_dims ds (dm # rest) =
     (if dm \<in> set ds then remove_dims (remove1 dm ds) rest else Inl ValueError)"

definition check_xarray_dataset :: "dataset \<Rightarrow> string list \<Rightarrow> error + string" where
  "check_xarray_dataset ds expected_dims =
     (case check_coords ds expected_dims (dims ds) of Inl e \<Rightarrow> Inl e
      | Inr _ \<Rightarrow>
          (case remove_dims expected_dims (dims ds) of Inl e \<Rightarrow> Inl e
           | Inr left \<Rightarrow>
               if length left \<noteq> 1 then Inl AssertionError
               else (case coords ds (hd left) of None \<Rightarrow> Inl KeyError
                     | Some c \<Rightarrow> if da_shape c \<noteq> [] then Inl TypeError else Inr (hd left))))"

definition expected_dims :: "string list" where
  "expected_dims = [''datetime'', ''height'', ''x'', ''y'']"

text \<open>
  \<^verbatim>\<open>ds.coords['datetime'][0]\<close> and \<^verbatim>\<open>[-1]\<close>: the coordinate must exist (KeyError) and
  be a non-empty 1-D array (IndexError).
\<close>

definition datetime_at :: "dataset \<Rightarrow> bool \<Rightarrow> error + real" where
  "datetime_at ds from_end =
     (case coords ds ''datetime'' of None \<Rightarrow> Inl KeyError
      | Some c \<Rightarrow>
          (case da_shape c of
             [n] \<Rightarrow> if n = 0 then Inl IndexError
                    else Inr (da_val c [if from_end then n - 1 else 0])
           | _ \<Rightarrow> Inl IndexError))"

text \<open>
  \<^verbatim>\<open>ds.sel(datetime=slice(datefrom,dateto))\<close> selects by label: \<^verbatim>\<open>datetime\<close> must be a
  dimension with an index, that is with a coordinate variable of its own (an error
  otherwise: KeyError in current versions of xarray). It keeps, in every variable that has
  the dimension, the positions whose label lies between the two dates (the labels are taken
  to be sorted, as a time axis is).
\<close>

definition take_along :: "string \<Rightarrow> nat list \<Rightarrow> darray \<Rightarrow> darray" where
  "take_along d keep a =
     (if d \<in> set (da_dims a)
      then let p = index_of (da_dims a) d
           in a\<lparr>da_shape := (da_shape a)[p := length keep],
                da_val := (\<lambda>idx. da_val a (idx[p := keep ! (idx ! p)]))\<rparr>
      else a)"

definition sel_datetime :: "dataset \<Rightarrow> real \<Rightarrow> real \<Rightarrow> error + dataset" where
  "sel_datetime ds lo hi =
     (case map_of (ds_coords ds) ''datetime'' of None \<Rightarrow> Inl KeyError
      | Some c \<Rightarrow>
          if ''datetime'' \<notin> set (dims ds) \<or> da_dims c \<noteq> [''datetime''] then Inl KeyError
          else
            let times = ravel c;
                keep = filter (\<lambda>i. lo \<le> times ! i \<and> times ! i \<le> hi) [0..<length times]
            in Inr \<lparr>ds_dims = map (\<lambda>(n, k). if n = ''datetime'' then (n, length keep) else (n, k))
                                   (ds_dims ds),
                    ds_coords = map (\<lambda>(n, a). (n, take_along ''datetime'' keep a)) (ds_coords ds),
                    ds_data_vars = map (\<lambda>(n, a). (n, take_along ''datetime'' keep a))
                                       (ds_data_vars ds)\<rparr>)"

definition assign_coord :: "dataset \<Rightarrow> string \<Rightarrow> darray \<Rightarrow> dataset" where
  "assign_coord ds name a =
     (if name \<in> set (map fst (ds_coords ds))
      then ds\<lparr>ds_coords := map (\<lambda>(n, b). if n = name then (n, a) else (n, b)) (ds_coords ds)\<rparr>
      else ds\<lparr>ds_coords := ds_coords ds @ [(name, a)]\<rparr>)"

record boundary_coupling =
  bc_name :: string
  bc_dpath :: string
  bc_ds :: dataset
  bc_datefrom :: real
  bc_bndry_dims :: "string list"

text \<open>
  \<^verbatim>\<open>BoundaryCoupling.__init__(dpath, ds, name, dateref, datefrom, dateto)\<close>, dates in
  seconds. The attribute \<^verbatim>\<open>bndry_dims\<close> does not exist before the first \<^verbatim>\<open>write\<close>; the
  record holds \<open>[]\<close> until then. \<^verbatim>\<open>dpath\<close> is \<^verbatim>\<open>os.path.join(dpath, name)\<close>; creating
  the directory is not modelled. Without a \<open>dateref\<close> the reference is
  \<^verbatim>\<open>self.ds.coords['datetime'][0]\<close>, a \<^verbatim>\<open>DataArray\<close>, on which the next line calls
  \<^verbatim>\<open>to_datetime64()\<close>: a method of \<^verbatim>\<open>pandas.Timestamp\<close> that a \<^verbatim>\<open>DataArray\<close> does not
  have, so that construction ends with AttributeError.
\<close>

definition bc_init :: "string \<Rightarrow> dataset \<Rightarrow> string \<Rightarrow> real option \<Rightarrow> real option \<Rightarrow> real option
                         \<Rightarrow> error + boundary_coupling" where
  "bc_init dpath ds name dateref datefrom dateto =
     (case check_xarray_dataset ds expected_dims of Inl e \<Rightarrow> Inl e
      | Inr constdim \<Rightarrow>
     (case (case datefrom of None \<Rightarrow> datetime_at ds False | Some d \<Rightarrow> Inr d) of Inl e \<Rightarrow> Inl e
      | Inr dfrom \<Rightarrow>
     (case (case dateto of None \<Rightarrow> datetime_at ds True | Some d \<Rightarrow> Inr d) of Inl e \<Rightarrow> Inl e
      | Inr dto \<Rightarrow>
     (case sel_datetime ds dfrom dto of Inl e \<Rightarrow> Inl e
      | Inr ds1 \<Rightarrow>
     (case (case dateref of
              None \<Rightarrow> (case datetime_at ds1 False of Inl e \<Rightarrow> Inl e
                       | Inr first \<Rightarrow> Inl AttributeError)
            | Some r \<Rightarrow> Inr r) of Inl e \<Rightarrow> Inl e
      | Inr ref \<Rightarrow>
          (case coords ds1 ''datetime'' of None \<Rightarrow> Inl KeyError
           | Some c \<Rightarrow>
               let tidx = map (\<lambda>t. t - ref) (ravel c)
               in Inr \<lparr>bc_name = name,
                       bc_dpath = dpath @ ''/'' @ name,
                       bc_ds = assign_coord ds1 ''t_index''
                                 (from_flat [''datetime''] [length tidx] tidx),
                       bc_datefrom = dfrom,
                       bc_bndry_dims = []\<rparr>))))))"

subsection \<open>Files and diagnostics\<close>

text \<open>
  A call of \<^verbatim>\<open>write\<close> leaves a trace of events: the files it wrote, in order, and the
  \<^verbatim>\<open>Skipping t=\<close> messages. The other messages it prints are not modelled. A file lies
  in the patch directory \<^verbatim>\<open>self.dpath\<close> or in its subdirectory named
  \<^verbatim>\<open>'{:g}'.format(ti)\<close>, written \<open>TimeDir ti\<close>. \<^verbatim>\<open>_open\<close> appends \<^verbatim>\<open>.gz\<close> to the
  name of a compressed file that does not end so already; the content is recorded as it
  is before compression.
\<close>

datatype tdir = PatchDir | TimeDir real

record bfile =
  bf_dir :: tdir
  bf_name :: string
  bf_binary :: bool
  bf_gzip :: bool
  bf_content :: "real piece list"

datatype event = Skipping real | Wrote bfile

definition endswith :: "string \<Rightarrow> string \<Rightarrow> bool" where
  "endswith s suf = (length suf \<le> length s \<and> drop (length s - length suf) s = suf)"

definition open_name :: "string \<Rightarrow> bool \<Rightarrow> string" where
  "open_name fpath gzip = (if gzip \<and> \<not> endswith fpath ''.gz'' then fpath @ ''.gz'' else fpath)"

text \<open>
  The module constant \<^verbatim>\<open>boundaryDataHeader\<close>, formatted with the number of entries
  \<^verbatim>\<open>{N:d}\<close>. \<open>CHR 0x5C\<close> is the backslash and \<open>CHR 0x0A\<close> the newline.
\<close>

definition digit :: "nat \<Rightarrow> char" where
  "digit d = char_of (48 + d)"

fun decimal :: "nat \<Rightarrow> string" where
  "decimal n = (if n < 10 then [digit n] else decimal (n div 10) @ [digit (n mod 10)])"

definition boundaryDataHeader :: "nat \<Rightarrow> string" where
  "boundaryDataHeader N =
     ''/*--------------------------------*- C++ -*----------------------------------*''
       @ [CHR 0x5C, CHR 0x0A] @
     ''  =========                 |'' @ [CHR 0x0A] @
     ''  '' @ [CHR 0x5C, CHR 0x5C] @ ''      /  F ield         | OpenFOAM: The Open Source CFD Toolbox''
       @ [CHR 0x0A] @
     ''   '' @ [CHR 0x5C, CHR 0x5C] @ ''    /   O peration     | Website:  https://openfoam.org''
       @ [CHR 0x0A] @
     ''    '' @ [CHR 0x5C, CHR 0x5C] @ ''  /    A nd           | Version:  6'' @ [CHR 0x0A] @
     ''     '' @ [CHR 0x5C, CHR 0x5C] @ ''/     M anipulation  |'' @ [CHR 0x0A] @
     [CHR 0x5C] @ ''*---------------------------------------------------------------------------*/''
       @ [CHR 0x0A] @
     [CHR 0x0A] @
     ''// generated by mmctools.coupling.sowfa.BoundaryCoupling'' @ [CHR 0x0A] @
     ''// https://github.com/a2e-mmc/mmctools/tree/dev'' @ [CHR 0x0A] @
     [CHR 0x0A] @
     decimal N @ [CHR 0x0A] @
     ''(''"

subsection \<open>The points file\<close>

text \<open>
  \<^verbatim>\<open>np.meshgrid(x, y, height, indexing='ij')\<close> flattens each coordinate (a scalar
  coordinate counts as one value), and the three raveled grids stacked by column are the
  points in nested order: \<^verbatim>\<open>x\<close> outermost, \<^verbatim>\<open>height\<close> innermost.
\<close>

definition points_array :: "dataset \<Rightarrow> error + real list list" where
  "points_array ds =
     (case coords ds ''x'' of None \<Rightarrow> Inl KeyError
      | Some cx \<Rightarrow>
     (case coords ds ''y'' of None \<Rightarrow> Inl KeyError
      | Some cy \<Rightarrow>
     (case coords ds ''height'' of None \<Rightarrow> Inl KeyError
      | Some cz \<Rightarrow>
          Inr (concat (map (\<lambda>x. concat (map (\<lambda>y. map (\<lambda>z. [x, y, z]) (ravel cz)) (ravel cy)))
                           (ravel cx))))))"

definition write_points :: "boundary_coupling \<Rightarrow> bool \<Rightarrow> bool \<Rightarrow> error + event list" where
  "write_points self binary gzip =
     (case points_array (bc_ds self) of Inl e \<Rightarrow> Inl e
      | Inr pts \<Rightarrow>
          let N = length pts; header = boundaryDataHeader N
          in if binary
             then Inr [Wrote \<lparr>bf_dir = PatchDir, bf_name = open_name ''points'' gzip,
                              bf_binary = True, bf_gzip = gzip,
                              bf_content = Lit header # map Raw (concat pts) @ [Lit '')'']\<rparr>]
             else (case savetxt pts 3 (FmtStr ''(%g %g %g)'') header '')'' of
                     Inl e \<Rightarrow> Inl e
                   | Inr txt \<Rightarrow>
                       Inr [Wrote \<lparr>bf_dir = PatchDir, bf_name = open_name ''points'' gzip,
                                   bf_binary = False, bf_gzip = gzip, bf_content = txt\<rparr>]))"

subsection \<open>Broadcasting and reordering a field\<close>

text \<open>
  \<^verbatim>\<open>len(ds.coords[dim])\<close>, the length of the axis that \<^verbatim>\<open>expand_dims\<close> adds.
\<close>

definition coord_len :: "dataset \<Rightarrow> string \<Rightarrow> error + nat" where
  "coord_len ds dm =
     (case coords ds dm of None \<Rightarrow> Inl KeyError
      | Some c \<Rightarrow> (case da_shape c of [] \<Rightarrow> Inl TypeError | n # _ \<Rightarrow> Inr n))"

text \<open>
  The loop of \<^verbatim>\<open>_write_boundary_scalar\<close> over \<^verbatim>\<open>self.bndry_dims\<close>, on the one variable
  it rebinds in its copy of the dataset.
\<close>

fun add_missing_dims :: "dataset \<Rightarrow> string list \<Rightarrow> darray \<Rightarrow> error + darray" where
  "add_missing_dims ds [] a = Inr a"
| "add_missing_dims ds (dm # rest) a =
     (if dm \<notin> set (da_dims a)
      then (case coord_len ds dm of Inl e \<Rightarrow> Inl e
            | Inr n \<Rightarrow> add_missing_dims ds rest (expand_dims dm n a))
      else add_missing_dims ds rest a)"

text \<open>
  The nested loop of \<^verbatim>\<open>_write_boundary_vector\<close>, over the dimensions and, inside, over
  the components; \<open>vars\<close> is the copy of the dataset's variables that the loop rebinds.
\<close>

fun expand_components :: "dataset \<Rightarrow> string \<Rightarrow> (string \<rightharpoonup> darray) \<Rightarrow> string list
                            \<Rightarrow> error + (string \<rightharpoonup> darray)" where
  "expand_components ds dm vars [] = Inr vars"
| "expand_components ds dm vars (var # rest) =
     (case vars var of None \<Rightarrow> Inl KeyError
      | Some a \<Rightarrow>
          if dm \<notin> set (da_dims a)
          then (case coord_len ds dm of Inl e \<Rightarrow> Inl e
                | Inr n \<Rightarrow> expand_components ds dm (vars(var \<mapsto> expand_dims dm n a)) rest)
          else expand_components ds dm vars rest)"

fun expand_all :: "dataset \<Rightarrow> string list \<Rightarrow> (string \<rightharpoonup> darray) \<Rightarrow> string list
                     \<Rightarrow> error + (string \<rightharpoonup> darray)" where
  "expand_all ds [] vars components = Inr vars"
| "expand_all ds (dm # rest) vars components =
     (case expand_components ds dm vars components of Inl e \<Rightarrow> Inl e
      | Inr vars' \<Rightarrow> expand_all ds rest vars' components)"

text \<open>
  \<^verbatim>\<open>swap_dims({'datetime':'t_index'}).transpose(*dim_order)\<close> with
  \<^verbatim>\<open>dim_order = ['t_index'] + self.bndry_dims\<close>.
\<close>

definition reorder :: "string list \<Rightarrow> darray \<Rightarrow> error + darray" where
  "reorder bndry_dims a =
     (case swap_dims ''datetime'' ''t_index'' a of Inl e \<Rightarrow> Inl e
      | Inr b \<Rightarrow> transpose_da (''t_index'' # bndry_dims) b)"

fun reorder_all :: "string list \<Rightarrow> darray list \<Rightarrow> error + darray list" where
  "reorder_all bndry_dims [] = Inr []"
| "reorder_all bndry_dims (a # as) =
     (case reorder bndry_dims a of Inl e \<Rightarrow> Inl e
      | Inr b \<Rightarrow> (case reorder_all bndry_dims as of Inl e \<Rightarrow> Inl e | Inr bs \<Rightarrow> Inr (b # bs)))"

text \<open>
  The values of the coordinate \<^verbatim>\<open>t_index\<close>, which \<^verbatim>\<open>float(ui['t_index'])\<close> reads for
  each slice.
\<close>

definition t_index_values :: "dataset \<Rightarrow> error + real list" where
  "t_index_values ds =
     (case coords ds ''t_index'' of None \<Rightarrow> Inl KeyError | Some c \<Rightarrow> Inr (ravel c))"

text \<open>
  What a field writer iterates over: the reordered array of the scalar, or of each
  component of the vector, and the time of every slice.
\<close>

definition scalar_array :: "boundary_coupling \<Rightarrow> string \<Rightarrow> error + darray \<times> real list" where
  "scalar_array self var =
     (case getitem (bc_ds self) var of None \<Rightarrow> Inl KeyError
      | Some a \<Rightarrow>
     (case add_missing_dims (bc_ds self) (bc_bndry_dims self) a of Inl e \<Rightarrow> Inl e
      | Inr b \<Rightarrow>
     (case t_index_values (bc_ds self) of Inl e \<Rightarrow> Inl e
      | Inr tis \<Rightarrow>
     (case reorder (bc_bndry_dims self) b of Inl e \<Rightarrow> Inl e
      | Inr u \<Rightarrow> Inr (u, tis)))))"

definition vector_arrays :: "boundary_coupling \<Rightarrow> string list \<Rightarrow> error + darray list \<times> real list" where
  "vector_arrays self components =
     (case expand_all (bc_ds self) (bc_bndry_dims self) (getitem (bc_ds self)) components of
        Inl e \<Rightarrow> Inl e
      | Inr vars \<Rightarrow>
     (case t_index_values (bc_ds self) of Inl e \<Rightarrow> Inl e
      | Inr tis \<Rightarrow>
     (if list_ex (\<lambda>var. vars var = None) components then Inl KeyError
      else (case reorder_all (bc_bndry_dims self) (map (\<lambda>var. the (vars var)) components) of
              Inl e \<Rightarrow> Inl e
            | Inr uvec \<Rightarrow> Inr (uvec, tis)))))"

subsection \<open>Writing the fields\<close>

text \<open>
  One pass of the loop body of a field writer, for the slice number \<open>t\<close> whose time is
  \<open>ti\<close>: a negative time is skipped with its message, any other slice is raveled and
  written into the directory named after its time.
\<close>

definition scalar_step :: "string \<Rightarrow> bool \<Rightarrow> bool \<Rightarrow> darray \<Rightarrow> real \<times> nat \<Rightarrow> error + event" where
  "scalar_step fname binary gzip u step =
     (let ti = fst step; t = snd step
      in if ti < 0 then Inr (Skipping ti)
         else
           let ui = ravel (slice_at u t); N = length ui; header = boundaryDataHeader N
           in if binary
              then Inr (Wrote \<lparr>bf_dir = TimeDir ti, bf_name = open_name fname gzip,
                               bf_binary = True, bf_gzip = gzip,
                               bf_content = Lit header # map Raw ui
                                              @ [Lit '')'', Lit (CHR 0x0A # ''0'')]\<rparr>)
              else (case savetxt (map (\<lambda>v. [v]) ui) 1 (FmtStr ''%g'') header '')'' of
                      Inl e \<Rightarrow> Inl e
                    | Inr txt \<Rightarrow>
                        Inr (Wrote \<lparr>bf_dir = TimeDir ti, bf_name = open_name fname gzip,
                                    bf_binary = False, bf_gzip = gzip,
                                    bf_content = txt @ [Lit (CHR 0x0A # ''0 // average value'')]\<rparr>)))"

definition stack3 :: "real list \<Rightarrow> real list \<Rightarrow> real list \<Rightarrow> real list list" where
  \<comment> \<open>\<^verbatim>\<open>np.stack((ui,vi,wi), axis=1)\<close> of three arrays of one length\<close>
  "stack3 ui vi wi = map (\<lambda>(a, b, c). [a, b, c]) (zip ui (zip vi wi))"

definition vector_step :: "string \<Rightarrow> bool \<Rightarrow> bool \<Rightarrow> darray \<Rightarrow> darray \<Rightarrow> darray \<Rightarrow> real \<times> nat
                             \<Rightarrow> error + event" where
  "vector_step fname binary gzip u v w step =
     (let ti = fst step; t = snd step
      in if ti < 0 then Inr (Skipping ti)
         else
           let ui = ravel (slice_at u t); vi = ravel (slice_at v t); wi = ravel (slice_at w t);
               data = stack3 ui vi wi; N = length data; header = boundaryDataHeader N
           in if binary
              then Inr (Wrote \<lparr>bf_dir = TimeDir ti, bf_name = open_name fname gzip,
                               bf_binary = True, bf_gzip = gzip,
                               bf_content = Lit header # map Raw (concat data)
                                              @ [Lit '')'', Lit (CHR 0x0A # ''(0 0 0)'')]\<rparr>)
              else (case savetxt data 3 (FmtStr ''(%g %g %g)'') header '')'' of
                      Inl e \<Rightarrow> Inl e
                    | Inr txt \<Rightarrow>
                        Inr (Wrote \<lparr>bf_dir = TimeDir ti, bf_name = open_name fname gzip,
                                    bf_binary = False, bf_gzip = gzip,
                                    bf_content = txt @ [Lit (CHR 0x0A # ''(0 0 0) // average value'')]\<rparr>)))"

text \<open>
  A loop whose body can raise: the events up to the first error, and that error.
\<close>

fun run_steps :: "('a \<Rightarrow> error + event) \<Rightarrow> 'a list \<Rightarrow> event list \<times> error option" where
  "run_steps body [] = ([], None)"
| "run_steps body (x # xs) =
     (case body x of Inl e \<Rightarrow> ([], Some e)
      | Inr ev \<Rightarrow> (case run_steps body xs of (evs, err) \<Rightarrow> (ev # evs, err)))"

definition steps_of :: "darray \<Rightarrow> real list \<Rightarrow> (real \<times> nat) list" where
  \<comment> \<open>the slices along the first axis, each with its time\<close>
  "steps_of u tis = zip tis [0..<hd (da_shape u)]"

definition write_boundary_scalar :: "boundary_coupling \<Rightarrow> string \<Rightarrow> string \<Rightarrow> bool \<Rightarrow> bool
                                       \<Rightarrow> event list \<times> error option" where
  "write_boundary_scalar self fname var binary gzip =
     (case scalar_array self var of Inl e \<Rightarrow> ([], Some e)
      | Inr (u, tis) \<Rightarrow> run_steps (scalar_step fname binary gzip u) (steps_of u tis))"

definition write_boundary_vector :: "boundary_coupling \<Rightarrow> string \<Rightarrow> string list \<Rightarrow> bool \<Rightarrow> bool
                                       \<Rightarrow> event list \<times> error option" where
  "write_boundary_vector self fname components binary gzip =
     (case vector_arrays self components of Inl e \<Rightarrow> ([], Some e)
      | Inr (uvec, tis) \<Rightarrow>
          (case uvec of
             [u, v, w] \<Rightarrow> run_steps (vector_step fname binary gzip u v w) (steps_of u tis)
           | _ \<Rightarrow> ([], Some ValueError)))"

subsection \<open>write\<close>

text \<open>
  \<^verbatim>\<open>fields\<close> is a dictionary from the OpenFOAM field name to one variable name (a
  scalar) or to a list or tuple of them (a vector); it is iterated in insertion order.
\<close>

datatype fieldspec = Scalar string | Vector "string list"

fun write_fields :: "boundary_coupling \<Rightarrow> (string \<times> fieldspec) list \<Rightarrow> bool \<Rightarrow> bool
                       \<Rightarrow> event list \<times> error option" where
  "write_fields self [] binary gzip = ([], None)"
| "write_fields self ((fieldname, dvars) # rest) binary gzip =
     (case (case dvars of
              Vector components \<Rightarrow>
                if \<not> list_all (\<lambda>dvar. dvar \<in> set (variables (bc_ds self))) components
                then ([], Some AssertionError)
                else if length components \<noteq> 3 then ([], Some AssertionError)
                else write_boundary_vector self fieldname components binary gzip
            | Scalar var \<Rightarrow>
                if var \<notin> set (variables (bc_ds self)) then ([], Some AssertionError)
                else write_boundary_scalar self fieldname var binary gzip) of
        (evs, Some e) \<Rightarrow> (evs, Some e)
      | (evs, None) \<Rightarrow>
          (case write_fields self rest binary gzip of (evs', err) \<Rightarrow> (evs @ evs', err)))"

text \<open>
  \<^verbatim>\<open>write(fields, binary, gzip)\<close>: the writer as the call leaves it (with
  \<^verbatim>\<open>bndry_dims\<close> set), the events of the call, and the error that ended it, if any.
  \<^verbatim>\<open>list.remove('datetime')\<close> raises ValueError when the dataset has no such dimension.
  The method is called \<open>bc_write\<close> here, \<open>write\<close> being reserved.
\<close>

definition bc_write :: "boundary_coupling \<Rightarrow> (string \<times> fieldspec) list \<Rightarrow> bool \<Rightarrow> bool
                       \<Rightarrow> boundary_coupling \<times> event list \<times> error option" where
  "bc_write self flds binary gzip =
     (if ''datetime'' \<notin> set (dims (bc_ds self)) then (self, [], Some ValueError)
      else
        let dms = remove1 ''datetime'' (dims (bc_ds self));
            self' = self\<lparr>bc_bndry_dims := filter (\<lambda>d. d \<in> set dms) [''x'', ''y'', ''height'']\<rparr>
        in if length (bc_bndry_dims self') \<noteq> 2 then (self', [], Some AssertionError)
           else (case write_points self' binary gzip of
                   Inl e \<Rightarrow> (self', [], Some e)
                 | Inr evs \<Rightarrow>
                     (case write_fields self' flds binary gzip of
                        (evs', err) \<Rightarrow> (self', evs @ evs', err))))"

section \<open>Vocabulary of the properties\<close>

text \<open>
  \<^verbatim>\<open>a.isel(d=env d, ...)\<close>: the value of a labelled array at the position that \<open>env\<close>
  gives for each of its dimensions, whatever their order in the array.
\<close>

definition isel :: "darray \<Rightarrow> (string \<Rightarrow> nat) \<Rightarrow> real" where
  "isel a env = da_val a (map env (da_dims a))"

text \<open>
  A position on the boundary plane at one time: slice \<open>t\<close> along \<^verbatim>\<open>datetime\<close>, index
  \<open>i\<close> along the first in-plane axis \<open>d1\<close> and index \<open>j\<close> along the other one.
\<close>

definition plane_pos :: "string \<Rightarrow> nat \<Rightarrow> nat \<Rightarrow> nat \<Rightarrow> string \<Rightarrow> nat" where
  "plane_pos d1 t i j = (\<lambda>d. if d = ''datetime'' then t else if d = d1 then i else j)"

text \<open>
  What xarray guarantees of the variables of any \<^verbatim>\<open>Dataset\<close>: the dimensions of a
  variable are distinct, its shape has one length per dimension, and each of its
  dimensions is a dimension of the dataset, with the dataset's size.
\<close>

definition xr_var :: "dataset \<Rightarrow> darray \<Rightarrow> bool" where
  "xr_var ds a =
     (distinct (da_dims a) \<and> length (da_shape a) = length (da_dims a)
      \<and> list_all (\<lambda>d. map_of (ds_dims ds) d = Some (size_of a d)) (da_dims a))"

definition xr_dataset :: "dataset \<Rightarrow> bool" where
  "xr_dataset ds = list_all (\<lambda>(n, a). xr_var ds a) (ds_coords ds @ ds_data_vars ds)"

text \<open>
  The input-shape errors of \<^verbatim>\<open>write\<close>: a vector without exactly three components or
  with a component that is not a variable of the dataset, a scalar that is not one.
\<close>

definition input_shape_error :: "dataset \<Rightarrow> fieldspec \<Rightarrow> bool" where
  "input_shape_error ds spec =
     (case spec of
        Vector components \<Rightarrow>
          length components \<noteq> 3 \<or> list_ex (\<lambda>dvar. dvar \<notin> set (variables ds)) components
      | Scalar var \<Rightarrow> var \<notin> set (variables ds))"

text \<open>
  Views of a trace: the files written, by directory and name; their contents; the times
  reported as skipped.
\<close>

definition written :: "event list \<Rightarrow> (tdir \<times> string) list" where
  "written evs = concat (map (\<lambda>ev. case ev of Skipping ti \<Rightarrow> []
                                    | Wrote f \<Rightarrow> [(bf_dir f, bf_name f)]) evs)"

definition contents :: "event list \<Rightarrow> real piece list list" where
  "contents evs = concat (map (\<lambda>ev. case ev of Skipping ti \<Rightarrow> []
                                     | Wrote f \<Rightarrow> [bf_content f]) evs)"

definition skipped :: "event list \<Rightarrow> real list" where
  "skipped evs = concat (map (\<lambda>ev. case ev of Skipping ti \<Rightarrow> [ti] | Wrote f \<Rightarrow> []) evs)"

text \<open>
  The numbers of a file, in the order in which they stand in it: those printed and those
  written as raw bytes.
\<close>

definition numbers :: "'v piece list \<Rightarrow> 'v list" where
  "numbers ps = concat (map (\<lambda>p. case p of Lit s \<Rightarrow> [] | Num k v \<Rightarrow> [v] | Raw v \<Rightarrow> [v]) ps)"

text \<open>The precisions of the numbers of a text, in order.\<close>

definition precisions :: "'v piece list \<Rightarrow> nat list" where
  "precisions ps = concat (map (\<lambda>p. case p of Num k v \<Rightarrow> [k] | _ \<Rightarrow> []) ps)"

text \<open>
  The text format as claim C9 words it for every writer: in each tuple the first column
  in the lower precision and every remaining column in the higher one.
\<close>

definition claimed_precisions :: "nat \<Rightarrow> nat \<Rightarrow> nat list" where
  "claimed_precisions nrows ncols = concat (replicate nrows (6 # replicate (ncols - 1) 12))"

text \<open>
  The binary file as claim C4 words it: the header as text, the raw layout of the tuple
  array, the closing parenthesis, and the placeholder as raw bytes of the element type,
  that is one zero element per component.
\<close>

definition claimed_binary_file :: "string \<Rightarrow> real list \<Rightarrow> nat \<Rightarrow> real piece list" where
  "claimed_binary_file header vals ncomp =
     Lit header # map Raw vals @ [Lit '')''] @ replicate ncomp (Raw 0)"

section \<open>Concrete inputs\<close>

text \<open>
  The two-row source: times \<open>T0\<close> and \<open>T0\<close> plus one hour, the single height 10, and
  only the field \<^verbatim>\<open>theta\<close>; once with the height as a column and once as the second
  level of a MultiIndex. \<open>T0\<close> is 2019-01-01 00:00 UTC in seconds.
\<close>

definition T0 :: real where
  "T0 = 1546300800"

definition two_row_source :: dataframe where
  "two_row_source =
     \<lparr>df_index_kind = DatetimeIndex,
      df_index = [T0, T0 + 3600],
      df_columns = [(''height'', [Some 10, Some 10]), (''theta'', [Some 300, Some 301])]\<rparr>"

definition two_row_multi :: frame_in where
  "two_row_multi =
     Multi ''datetime'' ''height'' [Some 10, Some 10]
       \<lparr>df_index_kind = DatetimeIndex, df_index = [T0, T0 + 3600],
        df_columns = [(''theta'', [Some 300, Some 301])]\<rparr>"

text \<open>
  A source with two heights at each of the two times, and the writers built from it: with
  \<open>T0\<close> as reference date, and without a reference date, which leaves the timestamps in
  \<^verbatim>\<open>t_index\<close>.
\<close>

definition profile_source :: dataframe where
  "profile_source =
     \<lparr>df_index_kind = DatetimeIndex,
      df_index = [T0, T0, T0 + 3600, T0 + 3600],
      df_columns = [(''height'', [Some 10, Some 20, Some 10, Some 20]),
                    (''theta'', [Some 300, Some 300.5, Some 301, Some 301.5])]\<rparr>"

definition profile_writer :: internal_coupling where
  "profile_writer =
     \<lparr>ic_dpath = ''out'',
      ic_df = \<lparr>df_index_kind = DatetimeIndex,
               df_index = [T0, T0, T0 + 3600, T0 + 3600],
               df_columns = [(''height'', [Some 10, Some 20, Some 10, Some 20]),
                             (''theta'', [Some 300, Some 300.5, Some 301, Some 301.5]),
                             (''t_index'', [Some 0, Some 0, Some 3600, Some 3600])]\<rparr>,
      ic_datefrom = T0,
      ic_t_index_datetime = False\<rparr>"

definition stamped_writer :: internal_coupling where
  "stamped_writer =
     \<lparr>ic_dpath = ''out'',
      ic_df = \<lparr>df_index_kind = DatetimeIndex,
               df_index = [T0, T0, T0 + 3600, T0 + 3600],
               df_columns = [(''height'', [Some 10, Some 20, Some 10, Some 20]),
                             (''theta'', [Some 300, Some 300.5, Some 301, Some 301.5]),
                             (''t_index'', [Some T0, Some T0, Some (T0 + 3600),
                                            Some (T0 + 3600)])]\<rparr>,
      ic_datefrom = T0,
      ic_t_index_datetime = True\<rparr>"

text \<open>
  A surface series, without heights: a heat flux at the two times, and the writer built
  from it with \<open>T0\<close> as reference date.
\<close>

definition surface_source :: dataframe where
  "surface_source =
     \<lparr>df_index_kind = DatetimeIndex,
      df_index = [T0, T0 + 3600],
      df_columns = [(''hfx'', [Some 0.1, Some 0.2])]\<rparr>"

definition surface_writer :: internal_coupling where
  "surface_writer =
     \<lparr>ic_dpath = ''out'',
      ic_df = \<lparr>df_index_kind = DatetimeIndex,
               df_index = [T0, T0 + 3600],
               df_columns = [(''hfx'', [Some 0.1, Some 0.2]),
                             (''t_index'', [Some 0, Some 3600])]\<rparr>,
      ic_datefrom = T0,
      ic_t_index_datetime = False\<rparr>"

text \<open>
  A west boundary: the plane \<^verbatim>\<open>x\<close> = 100 with two values of \<^verbatim>\<open>y\<close>, two heights and
  three times an hour apart. \<^verbatim>\<open>theta\<close> and \<^verbatim>\<open>u\<close> have all three axes, in different
  orders; \<^verbatim>\<open>v\<close> has no \<^verbatim>\<open>y\<close> axis and \<^verbatim>\<open>w\<close> only the time axis. The writer is
  built with the second time as reference date, so the first time is negative.
\<close>

definition west_ds :: dataset where
  "west_ds =
     \<lparr>ds_dims = [(''datetime'', 3), (''height'', 2), (''y'', 2)],
      ds_coords = [(''datetime'', from_flat [''datetime''] [3] [T0, T0 + 3600, T0 + 7200]),
                   (''height'', from_flat [''height''] [2] [5, 15]),
                   (''y'', from_flat [''y''] [2] [0, 10]),
                   (''x'', from_flat [] [] [100])],
      ds_data_vars =
        [(''theta'', from_flat [''datetime'', ''height'', ''y''] [3, 2, 2]
                       [300, 301, 302, 303, 310, 311, 312, 313, 320, 321, 322, 323]),
         (''u'', from_flat [''datetime'', ''y'', ''height''] [3, 2, 2]
                   [1, 2, 3, 4, 5, 6, 7, 8, 9, 10, 11, 12]),
         (''v'', from_flat [''datetime'', ''height''] [3, 2] [21, 22, 23, 24, 25, 26]),
         (''w'', from_flat [''datetime''] [3] [31, 32, 33])]\<rparr>"

definition west :: boundary_coupling where
  "west = projr (bc_init ''out'' west_ds ''west'' (Some (T0 + 3600)) None None)"

text \<open>The same writer after a call of \<^verbatim>\<open>write\<close>, which sets \<^verbatim>\<open>bndry_dims\<close>.\<close>

definition west_plane :: boundary_coupling where
  "west_plane = fst (bc_write west [] False False)"

text \<open>
  Two datasets that construction must refuse: one with all four axes, and one with the
  three spatial axes and the time as a scalar coordinate.
\<close>

definition four_axes_ds :: dataset where
  "four_axes_ds =
     \<lparr>ds_dims = [(''datetime'', 2), (''height'', 1), (''x'', 2), (''y'', 1)],
      ds_coords = [(''datetime'', from_flat [''datetime''] [2] [T0, T0 + 600]),
                   (''height'', from_flat [''height''] [1] [5]),
                   (''x'', from_flat [''x''] [2] [0, 10]),
                   (''y'', from_flat [''y''] [1] [0])],
      ds_data_vars = [(''theta'', from_flat [''datetime'', ''height'', ''x'', ''y''] [2, 1, 2, 1]
                                    [300, 301, 302, 303])]\<rparr>"

definition no_time_ds :: dataset where
  "no_time_ds =
     \<lparr>ds_dims = [(''height'', 1), (''x'', 2), (''y'', 1)],
      ds_coords = [(''datetime'', from_flat [] [] [T0]),
                   (''height'', from_flat [''height''] [1] [5]),
                   (''x'', from_flat [''x''] [2] [0, 10]),
                   (''y'', from_flat [''y''] [1] [0])],
      ds_data_vars = [(''theta'', from_flat [''height'', ''x'', ''y''] [1, 2, 1] [300, 301])]\<rparr>"

text \<open>
  A pivot for the examples: on a frame without duplicate (time, height) pairs, the table
  of a field has one row per time and one column per height, both sorted, and NaN where
  the frame has no row.
\<close>

definition pivot_sorted :: "dataframe \<Rightarrow> string list \<Rightarrow> error + (string \<Rightarrow> cell list list)" where
  "pivot_sorted df fieldNames =
     (case col df ''height'' of None \<Rightarrow> Inl KeyError
      | Some hs \<Rightarrow>
          let keys = zip (df_index df) hs;
              times = sort (remdups (df_index df));
              heights = sort (remdups (map the (filter (\<lambda>h. h \<noteq> None) hs)))
          in if \<not> distinct keys then Inl ValueError
             else if list_ex (\<lambda>f. col df f = None) fieldNames then Inl KeyError
             else Inr (\<lambda>field.
                    map (\<lambda>t. map (\<lambda>h. case map_of (zip keys (the_col df field)) (t, Some h) of
                                         None \<Rightarrow> None | Some v \<Rightarrow> v) heights) times))"

section \<open>Properties of the internal writer\<close>

subsection \<open>Columns of the stored frame\<close>

lemma col_None_iff: "col df c = None \<longleftrightarrow> c \<notin> set (columns df)"
  by (simp add: col_def columns_def map_of_eq_None_iff)

lemma columns_add_zero: "columns (add_zero_column df n) = columns df @ [n]"
  by (simp add: columns_def add_zero_column_def)

lemma index_add_zero: "df_index (add_zero_column df n) = df_index df"
  by (simp add: add_zero_column_def)

lemma col_add_zero:
  "col (add_zero_column df n) c =
     (case col df c of Some vs \<Rightarrow> Some vs
      | None \<Rightarrow> if c = n then Some (replicate (length (df_index df)) (Some 0)) else None)"
  by (simp add: col_def add_zero_column_def map_add_def split: option.splits)

lemma col_add_zero_old: "c \<in> set (columns df) \<Longrightarrow> col (add_zero_column df n) c = col df c"
  using col_None_iff[of df c] by (auto simp: col_add_zero split: option.splits)

lemma col_add_zero_new:
  "n \<notin> set (columns df) \<Longrightarrow>
   col (add_zero_column df n) n = Some (replicate (length (df_index df)) (Some 0))"
  using col_None_iff[of df n] by (auto simp: col_add_zero split: option.splits)

lemma fill_requested_Nil: "fill_requested df [] = df"
  by (simp add: fill_requested_def)

lemma fill_requested_Cons:
  "fill_requested df (a # fs) =
     fill_requested (case a of None \<Rightarrow> df
                     | Some f \<Rightarrow> if f \<notin> set (columns df) then add_zero_column df f else df) fs"
  by (simp add: fill_requested_def)

lemma fill_requested_index: "df_index (fill_requested df fs) = df_index df"
  by (induction fs arbitrary: df)
     (simp_all add: fill_requested_Nil fill_requested_Cons index_add_zero split: option.splits)

lemma fill_requested_old:
  "c \<in> set (columns df) \<Longrightarrow> col (fill_requested df fs) c = col df c"
proof (induction fs arbitrary: df)
  case Nil
  then show ?case by (simp add: fill_requested_Nil)
next
  case (Cons a fs)
  show ?case
  proof (cases a)
    case None
    with Cons show ?thesis by (simp add: fill_requested_Cons)
  next
    case (Some f)
    show ?thesis
    proof (cases "f \<in> set (columns df)")
      case True
      with Some Cons show ?thesis by (simp add: fill_requested_Cons)
    next
      case False
      have "c \<in> set (columns (add_zero_column df f))"
        using Cons.prems by (simp add: columns_add_zero)
      from Cons.IH[OF this] show ?thesis
        using Some False Cons.prems by (simp add: fill_requested_Cons col_add_zero_old)
    qed
  qed
qed

lemma fill_requested_new:
  "Some f \<in> set fs \<Longrightarrow> f \<notin> set (columns df) \<Longrightarrow>
   col (fill_requested df fs) f = Some (replicate (length (df_index df)) (Some 0))"
proof (induction fs arbitrary: df)
  case Nil
  then show ?case by simp
next
  case (Cons a fs)
  show ?case
  proof (cases "a = Some f")
    case True
    have "f \<in> set (columns (add_zero_column df f))"
      by (simp add: columns_add_zero)
    from fill_requested_old[OF this, of fs] show ?thesis
      using True Cons.prems(2) by (simp add: fill_requested_Cons col_add_zero_new)
  next
    case False
    hence mem: "Some f \<in> set fs"
      using Cons.prems by simp
    show ?thesis
    proof (cases a)
      case None
      with Cons.IH[OF mem Cons.prems(2)] show ?thesis by (simp add: fill_requested_Cons)
    next
      case (Some g)
      with False have ne: "g \<noteq> f" by simp
      show ?thesis
      proof (cases "g \<in> set (columns df)")
        case True
        with Some Cons.IH[OF mem Cons.prems(2)] show ?thesis by (simp add: fill_requested_Cons)
      next
        case F: False
        have "f \<notin> set (columns (add_zero_column df g))"
          using Cons.prems ne by (simp add: columns_add_zero)
        from Cons.IH[OF mem this] show ?thesis
          using Some F by (simp add: fill_requested_Cons index_add_zero)
      qed
    qed
  qed
qed

lemma fill_requested_columns:
  "set (columns (fill_requested df fs))
     = set (columns df) \<union> set (map the (filter (\<lambda>name. name \<noteq> None) fs))"
proof (induction fs arbitrary: df)
  case Nil
  then show ?case by (simp add: fill_requested_Nil)
next
  case (Cons a fs)
  show ?case
  proof (cases a)
    case None
    with Cons show ?thesis by (simp add: fill_requested_Cons)
  next
    case (Some f)
    show ?thesis
    proof (cases "f \<in> set (columns df)")
      case True
      with Some Cons[of df] show ?thesis by (auto simp: fill_requested_Cons)
    next
      case False
      with Some Cons[of "add_zero_column df f"] show ?thesis
        by (auto simp: fill_requested_Cons columns_add_zero)
    qed
  qed
qed

lemma fill_requested_kind: "df_index_kind (fill_requested df fs) = df_index_kind df"
  by (induction fs arbitrary: df)
     (simp_all add: fill_requested_Nil fill_requested_Cons add_zero_column_def split: option.splits)

lemma timeheight_body_state:
  "col (ic_df self) ''height'' \<noteq> None \<Longrightarrow> col (ic_df self) ''t_index'' \<noteq> None \<Longrightarrow>
   fst (timeheight_body pivot self fname wm xmom ymom zmom temp)
     = self\<lparr>ic_df := fill_requested (ic_df self) [xmom, ymom, zmom, temp]\<rparr>"
  by (auto simp: timeheight_body_def Let_def)

lemma timeheight_body_stops:
  "col (ic_df self) ''height'' = None \<or> col (ic_df self) ''t_index'' = None \<Longrightarrow>
   timeheight_body pivot self fname wm xmom ymom zmom temp = (self, Inl AttributeError)"
  by (auto simp: timeheight_body_def split: option.splits)

subsection \<open>Rows of the surface series\<close>

lemma pyfmt_BC:
  "pyfmt ''    (%g %.12g)'' [a, b] = Inr [Lit ''    ('', Num 6 a, Lit '' '', Num 12 b, Lit '')'']"
  by simp

lemma fmt_rows_BC:
  "fmt_rows ''    (%g %.12g)'' (map2 (\<lambda>t v. [g t, v]) ts vs)
     = Inr (concat (map2 (\<lambda>t v. [Lit ''    ('', Num 6 (g t), Lit '' '', Num 12 v, Lit '')'',
                                  Lit [CHR 0x0A]]) ts vs))"
proof (induction ts arbitrary: vs)
  case Nil
  then show ?case by simp
next
  case (Cons t ts)
  show ?case
  proof (cases vs)
    case Nil
    then show ?thesis by simp
  next
    case (Cons v vs')
    with Cons.IH[of vs'] show ?thesis by (simp del: pyfmt.simps add: pyfmt_BC)
  qed
qed

lemma savetxt_BC:
  "savetxt (map2 (\<lambda>t v. [g t, v]) ts vs) 2 (FmtList [''    (%g'', ''%.12g)'']) [] []
     = Inr (concat (map2 (\<lambda>t v. [Lit ''    ('', Num 6 (g t), Lit '' '', Num 12 v, Lit '')'',
                                  Lit [CHR 0x0A]]) ts vs))"
proof -
  have "row_format (FmtList [''    (%g'', ''%.12g)'']) 2 = Inr ''    (%g %.12g)''"
    by (simp add: row_format_def)
  then show ?thesis
    by (simp only: savetxt_def fmt_rows_BC verbatim_line_def sum.case) simp
qed

lemma has_nan_zeros: "\<not> has_nan (replicate n (Some 0))"
  by (simp add: has_nan_def list_ex_iff)

lemma write_BCs_rows:
  assumes "col (ic_df w) ''t_index'' = Some ts" "col (ic_df w) fieldname = Some fv"
          "\<not> has_nan fv"
  shows "write_BCs w fname fieldname fct
           = (if ic_t_index_datetime w then Inl TypeError
              else Inr \<lparr>f_dir = ic_dpath w, f_name = fname,
                        f_text = concat (map2 (\<lambda>t v. [Lit ''    ('', Num 6 (Time t), Lit '' '',
                                                        Num 12 v, Lit '')'', Lit [CHR 0x0A]])
                                          ts (map (Scaled fct) fv))\<rparr>)"
  unfolding write_BCs_def
  by (simp only: assms option.case if_False Let_def savetxt_BC sum.case)

subsection \<open>The claims\<close>

text \<open>
  C7. \<^verbatim>\<open>write_timeheight\<close> fails when exactly one or exactly two of \<^verbatim>\<open>xmom\<close>,
  \<^verbatim>\<open>ymom\<close>, \<^verbatim>\<open>zmom\<close> are specified (not \<^verbatim>\<open>None\<close>): the call ends with the assertion
  error, writes nothing and leaves the writer as it was. When all three or none are
  specified the completeness check passes, with \<^verbatim>\<open>write_mom\<close> telling which, and the call
  goes on with the rest of the method.
\<close>

theorem write_timeheight_momentum_complete:
  "(length (filter (\<lambda>comp. comp \<noteq> None) [xmom, ymom, zmom]) \<in> {1, 2} \<longrightarrow>
      write_timeheight pivot self fname xmom ymom zmom temp = (self, Inl AssertionError))
   \<and> (length (filter (\<lambda>comp. comp \<noteq> None) [xmom, ymom, zmom]) \<in> {0, 3} \<longrightarrow>
      check_mom xmom ymom zmom = Inr (xmom \<noteq> None)
      \<and> write_timeheight pivot self fname xmom ymom zmom temp
          = timeheight_body pivot self fname (xmom \<noteq> None) xmom ymom zmom temp)"
  by (cases xmom; cases ymom; cases zmom) (simp_all add: write_timeheight_def check_mom_def)

theorem write_timeheight_momentum_complete_witness:
  "length (filter (\<lambda>comp. comp \<noteq> None) [Some ''u'', None, Some ''w'']) \<in> {1, 2}
   \<and> write_timeheight pivot_sorted profile_writer ''forcing'' (Some ''u'') None (Some ''w'') None
       = (profile_writer, Inl AssertionError)
   \<and> length (filter (\<lambda>comp. comp \<noteq> None) [Some ''u'', Some ''v'', Some ''w'']) \<in> {0, 3}
   \<and> check_mom (Some ''u'') (Some ''v'') (Some ''w'') = Inr True
   \<and> write_timeheight pivot_sorted profile_writer ''forcing'' (Some ''u'') (Some ''v'') (Some ''w'') None
       = timeheight_body pivot_sorted profile_writer ''forcing'' True
           (Some ''u'') (Some ''v'') (Some ''w'') None
   \<and> length (filter (\<lambda>comp. comp \<noteq> None) [None, None, None :: string option]) \<in> {0, 3}
   \<and> check_mom None None None = Inr False"
  using write_timeheight_momentum_complete
          [of "Some ''u''" None "Some ''w''" pivot_sorted profile_writer "''forcing''" None]
        write_timeheight_momentum_complete
          [of "Some ''u''" "Some ''v''" "Some ''w''" pivot_sorted profile_writer "''forcing''" None]
        write_timeheight_momentum_complete
          [of None None None pivot_sorted profile_writer "''forcing''" None]
  by simp

text \<open>
  C8. On the two-row source (times \<open>T0\<close> and \<open>T0\<close> plus one hour, one height 10, field
  \<^verbatim>\<open>theta\<close> = 300, 301) with start date \<open>T0\<close>, \<^verbatim>\<open>write_ICs\<close> does not emit the line
  \<^verbatim>\<open>(10 0 0 300)\<close>: the label \<open>T0\<close> selects one row, which pandas hands back as a
  \<^verbatim>\<open>Series\<close>, and the zero-filling loop fails on \<^verbatim>\<open>df.columns\<close>. The same holds when the
  height is the second level of a MultiIndex and the start date is left to default.
\<close>

theorem write_ICs_single_height_fails:
  "(case ic_init ''out'' (Plain two_row_source) None (Some T0) None of
      Inl e \<Rightarrow> None | Inr w \<Rightarrow> Some (snd (write_ICs w ''ICs'' ''u'' ''v'' ''theta'')))
     = Some (Inl AttributeError)
   \<and> (case ic_init ''out'' two_row_multi None None None of
      Inl e \<Rightarrow> None | Inr w \<Rightarrow> Some (snd (write_ICs w ''ICs'' ''u'' ''v'' ''theta'')))
     = Some (Inl AttributeError)"
  by code_simp

text \<open>
  With two heights at the start date the method does what C8 describes: one line per
  height, at the start date only, absent fields as zeros.
\<close>

lemma write_ICs_profile_example:
  "ic_init ''out'' (Plain profile_source) (Some T0) None None = Inr profile_writer
   \<and> write_ICs profile_writer ''ICs'' ''u'' ''v'' ''theta''
     = (profile_writer,
        Inr \<lparr>f_dir = ''out'', f_name = ''ICs'',
             f_text = [Lit ''    ('', Num 6 (Some 10), Lit '' '', Num 12 (Some 0), Lit '' '',
                       Num 12 (Some 0), Lit '' '', Num 12 (Some 300), Lit '')'', Lit [CHR 0x0A],
                       Lit ''    ('', Num 6 (Some 20), Lit '' '', Num 12 (Some 0), Lit '' '',
                       Num 12 (Some 0), Lit '' '', Num 12 (Some 300.5), Lit '')'',
                       Lit [CHR 0x0A]]\<rparr>)"
  by code_simp


text \<open>
  The writers of the examples are those the constructor builds from the sources.
\<close>

lemma example_writers:
  "ic_init ''out'' (Plain profile_source) None None None = Inr stamped_writer"
  "ic_init ''out'' (Plain surface_source) (Some T0) None None = Inr surface_writer"
  by code_simp+

text \<open>
  C10, as stated, fails: a call that names a field which is not a column, but names only
  one momentum component, stops at the completeness check before the zero-filling loop,
  and the stored frame has no such column afterwards.
\<close>

theorem write_timeheight_zero_fill_counterexample:
  "Some ''u'' \<in> set [Some ''u'', None, None, None]
   \<and> ''u'' \<notin> set (columns (ic_df profile_writer))
   \<and> ''u'' \<notin> set (columns (ic_df (fst (write_timeheight pivot_sorted profile_writer ''forcing''
                                           (Some ''u'') None None None))))"
  by code_simp

text \<open>
  C10, amended. A call of \<^verbatim>\<open>write_timeheight\<close> that fails the momentum completeness
  check returns that error and leaves the writer as it was; so does, with an error, a call
  on a writer whose frame lacks the column \<^verbatim>\<open>height\<close> or \<^verbatim>\<open>t_index\<close>: both raise
  before the zero-filling loop. A call that passes the check, on a writer whose frame has
  both columns, changes nothing of the writer but the stored frame, and of the frame
  neither the index nor the columns that were there: the columns afterwards are those
  before together with the requested names, whatever happens later in the call. Every
  requested name \<open>f\<close> that was not a column is now a column of zeros, and the writer the
  call leaves behind is the one later calls see: \<^verbatim>\<open>write_BCs\<close> for \<open>f\<close>, which failed
  its existence assertion before the call, gets past it afterwards and writes one line per
  stored row, whose value is the float product of the scale factor and the zero of the
  column (when \<^verbatim>\<open>t_index\<close> holds timestamps it raises TypeError at the concatenation
  instead). \<^verbatim>\<open>write_ICs\<close> leaves the writer it is called on unchanged.
\<close>

theorem write_timeheight_zero_fill_persists:
  "(check_mom xmom ymom zmom = Inl e \<longrightarrow>
      write_timeheight pivot self fname xmom ymom zmom temp = (self, Inl e))
   \<and> (col (ic_df self) ''height'' = None \<or> col (ic_df self) ''t_index'' = None \<longrightarrow>
      fst (write_timeheight pivot self fname xmom ymom zmom temp) = self
      \<and> isl (snd (write_timeheight pivot self fname xmom ymom zmom temp)))
   \<and> (check_mom xmom ymom zmom = Inr wm \<and> col (ic_df self) ''height'' \<noteq> None
        \<and> col (ic_df self) ''t_index'' = Some tis \<longrightarrow>
      fst (write_timeheight pivot self fname xmom ymom zmom temp)
        = self\<lparr>ic_df := ic_df (fst (write_timeheight pivot self fname xmom ymom zmom temp))\<rparr>
      \<and> df_index (ic_df (fst (write_timeheight pivot self fname xmom ymom zmom temp)))
          = df_index (ic_df self)
      \<and> set (columns (ic_df (fst (write_timeheight pivot self fname xmom ymom zmom temp))))
          = set (columns (ic_df self))
            \<union> set (map the (filter (\<lambda>name. name \<noteq> None) [xmom, ymom, zmom, temp]))
      \<and> (\<forall>c \<in> set (columns (ic_df self)).
            col (ic_df (fst (write_timeheight pivot self fname xmom ymom zmom temp))) c
              = col (ic_df self) c)
      \<and> (Some f \<in> set [xmom, ymom, zmom, temp] \<and> f \<notin> set (columns (ic_df self)) \<longrightarrow>
            col (ic_df (fst (write_timeheight pivot self fname xmom ymom zmom temp))) f
              = Some (replicate (length (df_index (ic_df self))) (Some 0))
            \<and> write_BCs self g f fct = Inl AssertionError
            \<and> write_BCs (fst (write_timeheight pivot self fname xmom ymom zmom temp)) g f fct
                = (if ic_t_index_datetime self then Inl TypeError
                   else Inr \<lparr>f_dir = ic_dpath self, f_name = g,
                             f_text = concat (map2 (\<lambda>t v. [Lit ''    ('', Num 6 (Time t),
                                                             Lit '' '', Num 12 v, Lit '')'',
                                                             Lit [CHR 0x0A]])
                                               tis (replicate (length (df_index (ic_df self)))
                                                              (Scaled fct (Some 0))))\<rparr>)))
   \<and> fst (write_ICs self g' xm ym tp) = self"
proof -
  let ?W = "write_timeheight pivot self fname xmom ymom zmom temp"
  let ?self' = "fst ?W"
  have A: "check_mom xmom ymom zmom = Inl e \<longrightarrow> ?W = (self, Inl e)"
    by (simp add: write_timeheight_def)
  have B: "col (ic_df self) ''height'' = None \<or> col (ic_df self) ''t_index'' = None \<longrightarrow>
           ?self' = self \<and> isl (snd ?W)"
  proof
    assume h: "col (ic_df self) ''height'' = None \<or> col (ic_df self) ''t_index'' = None"
    show "?self' = self \<and> isl (snd ?W)"
      by (cases "check_mom xmom ymom zmom")
         (simp_all add: write_timeheight_def timeheight_body_stops[OF h])
  qed
  have C: "?self' = self\<lparr>ic_df := ic_df ?self'\<rparr>
      \<and> df_index (ic_df ?self') = df_index (ic_df self)
      \<and> set (columns (ic_df ?self'))
          = set (columns (ic_df self))
            \<union> set (map the (filter (\<lambda>name. name \<noteq> None) [xmom, ymom, zmom, temp]))
      \<and> (\<forall>c \<in> set (columns (ic_df self)). col (ic_df ?self') c = col (ic_df self) c)
      \<and> (Some f \<in> set [xmom, ymom, zmom, temp] \<and> f \<notin> set (columns (ic_df self)) \<longrightarrow>
            col (ic_df ?self') f = Some (replicate (length (df_index (ic_df self))) (Some 0))
            \<and> write_BCs self g f fct = Inl AssertionError
            \<and> write_BCs ?self' g f fct
                = (if ic_t_index_datetime self then Inl TypeError
                   else Inr \<lparr>f_dir = ic_dpath self, f_name = g,
                             f_text = concat (map2 (\<lambda>t v. [Lit ''    ('', Num 6 (Time t),
                                                             Lit '' '', Num 12 v, Lit '')'',
                                                             Lit [CHR 0x0A]])
                                               tis (replicate (length (df_index (ic_df self)))
                                                              (Scaled fct (Some 0))))\<rparr>))"
    if ck: "check_mom xmom ymom zmom = Inr wm"
      and hc: "col (ic_df self) ''height'' \<noteq> None"
      and tc: "col (ic_df self) ''t_index'' = Some tis"
  proof -
    have tcol: "col (ic_df self) ''t_index'' \<noteq> None"
      using tc by simp
    have st: "?self' = self\<lparr>ic_df := fill_requested (ic_df self) [xmom, ymom, zmom, temp]\<rparr>"
      using ck timeheight_body_state[OF hc tcol] by (simp add: write_timeheight_def)
    have fr: "ic_df ?self' = fill_requested (ic_df self) [xmom, ymom, zmom, temp]"
      by (subst st) simp
    have rest: "?self' = self\<lparr>ic_df := ic_df ?self'\<rparr>"
      by (subst fr) (rule st)
    have idx: "df_index (ic_df ?self') = df_index (ic_df self)"
      using st by (simp add: fill_requested_index)
    have cols: "set (columns (ic_df ?self'))
          = set (columns (ic_df self))
            \<union> set (map the (filter (\<lambda>name. name \<noteq> None) [xmom, ymom, zmom, temp]))"
      by (subst fr) (rule fill_requested_columns)
    have old: "\<forall>c \<in> set (columns (ic_df self)). col (ic_df ?self') c = col (ic_df self) c"
      using st by (simp add: fill_requested_old)
    have fresh: "col (ic_df ?self') f = Some (replicate (length (df_index (ic_df self))) (Some 0))
            \<and> write_BCs self g f fct = Inl AssertionError
            \<and> write_BCs ?self' g f fct
                = (if ic_t_index_datetime self then Inl TypeError
                   else Inr \<lparr>f_dir = ic_dpath self, f_name = g,
                             f_text = concat (map2 (\<lambda>t v. [Lit ''    ('', Num 6 (Time t),
                                                             Lit '' '', Num 12 v, Lit '')'',
                                                             Lit [CHR 0x0A]])
                                               tis (replicate (length (df_index (ic_df self)))
                                                              (Scaled fct (Some 0))))\<rparr>)"
      if req: "Some f \<in> set [xmom, ymom, zmom, temp]" and abs: "f \<notin> set (columns (ic_df self))"
    proof -
      have new: "col (ic_df ?self') f
                   = Some (replicate (length (df_index (ic_df self))) (Some 0))"
        using st fill_requested_new[OF req abs] by simp
      have tin: "''t_index'' \<in> set (columns (ic_df self))"
        using tcol col_None_iff[of "ic_df self" "''t_index''"] by simp
      have t': "col (ic_df ?self') ''t_index'' = Some tis"
        using old tin tc by simp
      have before: "write_BCs self g f fct = Inl AssertionError"
        using tc abs col_None_iff[of "ic_df self" f] by (simp add: write_BCs_def)
      have keep: "ic_dpath ?self' = ic_dpath self"
                 "ic_t_index_datetime ?self' = ic_t_index_datetime self"
        using st by simp_all
      have after: "write_BCs ?self' g f fct
                = (if ic_t_index_datetime self then Inl TypeError
                   else Inr \<lparr>f_dir = ic_dpath self, f_name = g,
                             f_text = concat (map2 (\<lambda>t v. [Lit ''    ('', Num 6 (Time t),
                                                             Lit '' '', Num 12 v, Lit '')'',
                                                             Lit [CHR 0x0A]])
                                               tis (replicate (length (df_index (ic_df self)))
                                                              (Scaled fct (Some 0))))\<rparr>)"
        by (simp only: write_BCs_rows[OF t' new has_nan_zeros] keep map_replicate)
      from new before after show ?thesis by blast
    qed
    from rest idx cols old fresh show ?thesis by blast
  qed
  have D: "fst (write_ICs self g' xm ym tp) = self"
    by (simp add: write_ICs_def)
  from A B C D show ?thesis by blast
qed

theorem write_timeheight_zero_fill_persists_witness:
  "check_mom (Some ''u'') None None = Inl AssertionError
   \<and> write_timeheight pivot_sorted profile_writer ''forcing'' (Some ''u'') None None None
       = (profile_writer, Inl AssertionError)
   \<and> col (ic_df surface_writer) ''height'' = None
   \<and> fst (write_timeheight pivot_sorted surface_writer ''forcing'' None None None (Some ''qT''))
       = surface_writer
   \<and> isl (snd (write_timeheight pivot_sorted surface_writer ''forcing''
                  None None None (Some ''qT'')))
   \<and> check_mom None None None = Inr False
   \<and> col (ic_df profile_writer) ''height'' \<noteq> None
   \<and> col (ic_df profile_writer) ''t_index'' = Some [Some 0, Some 0, Some 3600, Some 3600]
   \<and> Some ''qT'' \<in> set [None, None, None, Some ''qT'']
   \<and> ''qT'' \<notin> set (columns (ic_df profile_writer))
   \<and> ic_df (fst (write_timeheight pivot_sorted profile_writer ''forcing''
                   None None None (Some ''qT'')))
       = \<lparr>df_index_kind = DatetimeIndex,
          df_index = [T0, T0, T0 + 3600, T0 + 3600],
          df_columns = [(''height'', [Some 10, Some 20, Some 10, Some 20]),
                        (''theta'', [Some 300, Some 300.5, Some 301, Some 301.5]),
                        (''t_index'', [Some 0, Some 0, Some 3600, Some 3600]),
                        (''qT'', [Some 0, Some 0, Some 0, Some 0])]\<rparr>
   \<and> set (columns (ic_df (fst (write_timeheight pivot_sorted profile_writer ''forcing''
                                 None None None (Some ''qT'')))))
       = set (columns (ic_df profile_writer)) \<union> {''qT''}
   \<and> col (ic_df (fst (write_timeheight pivot_sorted profile_writer ''forcing''
                        None None None (Some ''qT'')))) ''theta''
       = col (ic_df profile_writer) ''theta''
   \<and> col (ic_df (fst (write_timeheight pivot_sorted profile_writer ''forcing''
                        None None None (Some ''qT'')))) ''qT''
       = Some [Some 0, Some 0, Some 0, Some 0]
   \<and> write_BCs profile_writer ''qwall'' ''qT'' (- 1) = Inl AssertionError
   \<and> write_BCs (fst (write_timeheight pivot_sorted profile_writer ''forcing''
                       None None None (Some ''qT''))) ''qwall'' ''qT'' (- 1)
       = Inr \<lparr>f_dir = ''out'', f_name = ''qwall'',
              f_text = [Lit ''    ('', Num 6 (Time (Some 0)), Lit '' '',
                        Num 12 (Scaled (- 1) (Some 0)), Lit '')'', Lit [CHR 0x0A],
                        Lit ''    ('', Num 6 (Time (Some 0)), Lit '' '',
                        Num 12 (Scaled (- 1) (Some 0)), Lit '')'', Lit [CHR 0x0A],
                        Lit ''    ('', Num 6 (Time (Some 3600)), Lit '' '',
                        Num 12 (Scaled (- 1) (Some 0)), Lit '')'', Lit [CHR 0x0A],
                        Lit ''    ('', Num 6 (Time (Some 3600)), Lit '' '',
                        Num 12 (Scaled (- 1) (Some 0)), Lit '')'', Lit [CHR 0x0A]]\<rparr>
   \<and> ic_t_index_datetime stamped_writer
   \<and> write_BCs stamped_writer ''qwall'' ''qT'' 1 = Inl AssertionError
   \<and> write_BCs (fst (write_timeheight pivot_sorted stamped_writer ''forcing''
                       None None None (Some ''qT''))) ''qwall'' ''qT'' 1
       = Inl TypeError
   \<and> fst (write_ICs profile_writer ''ICs'' ''u'' ''v'' ''theta'') = profile_writer"
proof -
  have a: "check_mom (Some ''u'') None None = Inl AssertionError"
    by (simp add: check_mom_def)
  have b: "col (ic_df surface_writer) ''height'' = None"
    by (simp add: col_def surface_writer_def)
  have h1: "check_mom None None None = Inr False"
    by (simp add: check_mom_def)
  have h2: "col (ic_df profile_writer) ''height'' \<noteq> None"
    by (simp add: col_def profile_writer_def)
  have h3: "col (ic_df profile_writer) ''t_index'' = Some [Some 0, Some 0, Some 3600, Some 3600]"
    by (simp add: col_def profile_writer_def)
  have h4: "Some ''qT'' \<in> set [None, None, None, Some ''qT'']"
    by simp
  have h5: "''qT'' \<notin> set (columns (ic_df profile_writer))"
    by (simp add: columns_def profile_writer_def)
  have n: "length (df_index (ic_df profile_writer)) = 4" "ic_dpath profile_writer = ''out''"
          "\<not> ic_t_index_datetime profile_writer"
    by (simp_all add: profile_writer_def)
  have th: "''theta'' \<in> set (columns (ic_df profile_writer))"
    by (simp add: columns_def profile_writer_def)
  have s2: "col (ic_df stamped_writer) ''height'' \<noteq> None"
    by (simp add: col_def stamped_writer_def)
  have s3: "col (ic_df stamped_writer) ''t_index''
              = Some [Some T0, Some T0, Some (T0 + 3600), Some (T0 + 3600)]"
    by (simp add: col_def stamped_writer_def)
  have s5: "''qT'' \<notin> set (columns (ic_df stamped_writer))"
    by (simp add: columns_def stamped_writer_def)
  have s6: "ic_t_index_datetime stamped_writer"
    by (simp add: stamped_writer_def)
  have frame: "ic_df (fst (write_timeheight pivot_sorted profile_writer ''forcing''
                   None None None (Some ''qT'')))
       = \<lparr>df_index_kind = DatetimeIndex,
          df_index = [T0, T0, T0 + 3600, T0 + 3600],
          df_columns = [(''height'', [Some 10, Some 20, Some 10, Some 20]),
                        (''theta'', [Some 300, Some 300.5, Some 301, Some 301.5]),
                        (''t_index'', [Some 0, Some 0, Some 3600, Some 3600]),
                        (''qT'', [Some 0, Some 0, Some 0, Some 0])]\<rparr>"
    by code_simp
  note A = write_timeheight_zero_fill_persists
             [of "Some ''u''" None None AssertionError pivot_sorted profile_writer "''forcing''" None,
              THEN conjunct1, THEN mp, OF a]
  note B = write_timeheight_zero_fill_persists
             [of None None None _ pivot_sorted surface_writer "''forcing''" "Some ''qT''",
              THEN conjunct2, THEN conjunct1, THEN mp, OF disjI1[OF b]]
  note C = write_timeheight_zero_fill_persists
             [of None None None _ pivot_sorted profile_writer "''forcing''" "Some ''qT''" False
                 "[Some 0, Some 0, Some 3600, Some 3600]" "''qT''" "''qwall''" "- 1"
                 "''ICs''" "''u''" "''v''" "''theta''"]
  note C3 = C[THEN conjunct2, THEN conjunct2, THEN conjunct1, THEN mp,
              OF conjI[OF h1 conjI[OF h2 h3]]]
  note Cnew = C3[THEN conjunct2, THEN conjunct2, THEN conjunct2, THEN conjunct2, THEN mp,
                 OF conjI[OF h4 h5]]
  note S = write_timeheight_zero_fill_persists
             [of None None None _ pivot_sorted stamped_writer "''forcing''" "Some ''qT''" False
                 "[Some T0, Some T0, Some (T0 + 3600), Some (T0 + 3600)]" "''qT''" "''qwall''" 1,
              THEN conjunct2, THEN conjunct2, THEN conjunct1, THEN mp,
              OF conjI[OF h1 conjI[OF s2 s3]],
              THEN conjunct2, THEN conjunct2, THEN conjunct2, THEN conjunct2, THEN mp,
              OF conjI[OF h4 s5]]
  have cols: "set (columns (ic_df (fst (write_timeheight pivot_sorted profile_writer ''forcing''
                                 None None None (Some ''qT'')))))
       = set (columns (ic_df profile_writer)) \<union> {''qT''}"
    using C3[THEN conjunct2, THEN conjunct2, THEN conjunct1] by simp
  have old: "col (ic_df (fst (write_timeheight pivot_sorted profile_writer ''forcing''
                        None None None (Some ''qT'')))) ''theta''
       = col (ic_df profile_writer) ''theta''"
    using C3[THEN conjunct2, THEN conjunct2, THEN conjunct2, THEN conjunct1] th by blast
  have new: "col (ic_df (fst (write_timeheight pivot_sorted profile_writer ''forcing''
                        None None None (Some ''qT'')))) ''qT''
       = Some [Some 0, Some 0, Some 0, Some 0]"
    using Cnew[THEN conjunct1] by (simp add: n numeral_eq_Suc)
  note before = Cnew[THEN conjunct2, THEN conjunct1]
  have after: "write_BCs (fst (write_timeheight pivot_sorted profile_writer ''forcing''
                       None None None (Some ''qT''))) ''qwall'' ''qT'' (- 1)
       = Inr \<lparr>f_dir = ''out'', f_name = ''qwall'',
              f_text = [Lit ''    ('', Num 6 (Time (Some 0)), Lit '' '',
                        Num 12 (Scaled (- 1) (Some 0)), Lit '')'', Lit [CHR 0x0A],
                        Lit ''    ('', Num 6 (Time (Some 0)), Lit '' '',
                        Num 12 (Scaled (- 1) (Some 0)), Lit '')'', Lit [CHR 0x0A],
                        Lit ''    ('', Num 6 (Time (Some 3600)), Lit '' '',
                        Num 12 (Scaled (- 1) (Some 0)), Lit '')'', Lit [CHR 0x0A],
                        Lit ''    ('', Num 6 (Time (Some 3600)), Lit '' '',
                        Num 12 (Scaled (- 1) (Some 0)), Lit '')'', Lit [CHR 0x0A]]\<rparr>"
    using Cnew[THEN conjunct2, THEN conjunct2] by (simp add: n numeral_eq_Suc)
  note sbefore = S[THEN conjunct2, THEN conjunct1]
  have safter: "write_BCs (fst (write_timeheight pivot_sorted stamped_writer ''forcing''
                       None None None (Some ''qT''))) ''qwall'' ''qT'' 1
       = Inl TypeError"
    using S[THEN conjunct2, THEN conjunct2] s6 by simp
  note D = C[THEN conjunct2, THEN conjunct2, THEN conjunct2]
  show ?thesis
    using a A b B[THEN conjunct1] B[THEN conjunct2] h1 h2 h3 h4 h5 frame cols old new
          before after s6 sbefore safter D
    by (intro conjI) assumption+
qed

end
